theory Spec2Isabelle
  imports Main "HOL-Library.Sublist"
begin

section \<open>Python values\<close>

text \<open>
  Exceptions are values. Only the exception classes that the modelled code can raise
  appear; the payload is the message or the offending key.
\<close>

datatype exn =
    ValueError string
  | KeyError string
  | AttributeError string
  | IndexError
  | TypeError
  | OverflowError
  | MemoryError
  | OSError string

text \<open>
  The values produced by \<open>json.loads\<close>: \<open>None\<close>, booleans, integers, strings, lists
  and dicts. A dict is an association list read with \<open>map_of\<close>; in a decoded dict the keys
  are distinct. JSON numbers with a fraction or an exponent (Python floats) are outside the
  model. Text is a list of 8-bit characters, one \<open>char\<close> per code point.
\<close>

datatype json =
    JNull
  | JBool bool
  | JInt int
  | JStr string
  | JList "json list"
  | JObj "(string \<times> json) list"

type_synonym dict = "(string \<times> json) list"

type_synonym message = dict

text \<open>\<open>key in d\<close>, \<open>d.get(key, default)\<close> and \<open>d[key]\<close>.\<close>

definition dict_in :: "string \<Rightarrow> (string \<times> 'v) list \<Rightarrow> bool" where
  "dict_in k d = (map_of d k \<noteq> None)"

definition dict_get :: "(string \<times> 'v) list \<Rightarrow> string \<Rightarrow> 'v \<Rightarrow> 'v" where
  "dict_get d k dflt = (case map_of d k of None \<Rightarrow> dflt | Some v \<Rightarrow> v)"

definition dict_getitem :: "(string \<times> 'v) list \<Rightarrow> string \<Rightarrow> exn + 'v" where
  "dict_getitem d k = (case map_of d k of None \<Rightarrow> Inl (KeyError k) | Some v \<Rightarrow> Inr v)"

text \<open>Truthiness of a decoded value, as tested by \<open>if result:\<close>.\<close>

fun truthy :: "json \<Rightarrow> bool" where
  "truthy JNull = False"
| "truthy (JBool b) = b"
| "truthy (JInt n) = (n \<noteq> 0)"
| "truthy (JStr s) = (s \<noteq> [])"
| "truthy (JList xs) = (xs \<noteq> [])"
| "truthy (JObj kvs) = (kvs \<noteq> [])"

subsection \<open>\<open>str\<close> and \<open>repr\<close>\<close>

definition digit_char :: "nat \<Rightarrow> char" where
  "digit_char d = ''0123456789'' ! d"

fun show_nat :: "nat \<Rightarrow> string" where
  "show_nat n = (if n < 10 then [digit_char n] else show_nat (n div 10) @ [digit_char (n mod 10)])"

declare show_nat.simps [simp del]

definition show_int :: "int \<Rightarrow> string" where
  "show_int i = (if i < 0 then CHR ''-'' # show_nat (nat (- i)) else show_nat (nat i))"

definition hex_char :: "nat \<Rightarrow> char" where
  "hex_char d = ''0123456789abcdef'' ! d"

text \<open>\<open>str.isprintable\<close> on the code points 0 to 255.\<close>

definition py_printable :: "char \<Rightarrow> bool" where
  "py_printable c = (let n = (of_char c :: nat) in (32 \<le> n \<and> n < 127) \<or> (161 \<le> n \<and> n \<noteq> 173))"

definition repr_char :: "char \<Rightarrow> char \<Rightarrow> string" where
  "repr_char q c =
     (if c = q \<or> c = CHR 0x5C then [CHR 0x5C, c]
      else if c = CHR 0x09 then [CHR 0x5C, CHR ''t'']
      else if c = CHR 0x0A then [CHR 0x5C, CHR ''n'']
      else if c = CHR 0x0D then [CHR 0x5C, CHR ''r'']
      else if \<not> py_printable c then
        [CHR 0x5C, CHR ''x'', hex_char ((of_char c :: nat) div 16), hex_char ((of_char c :: nat) mod 16)]
      else [c])"

definition repr_str :: "string \<Rightarrow> string" where
  "repr_str s =
     (let q = (if CHR 0x27 \<in> set s \<and> CHR 0x22 \<notin> set s then CHR 0x22 else CHR 0x27)
      in q # concat (map (repr_char q) s) @ [q])"

fun join :: "string \<Rightarrow> string list \<Rightarrow> string" where
  "join sep [] = []"
| "join sep [x] = x"
| "join sep (x # y # ys) = x @ sep @ join sep (y # ys)"

fun py_repr :: "json \<Rightarrow> string" where
  "py_repr JNull = ''None''"
| "py_repr (JBool b) = (if b then ''True'' else ''False'')"
| "py_repr (JInt n) = show_int n"
| "py_repr (JStr s) = repr_str s"
| "py_repr (JList xs) = ''['' @ join '', '' (map py_repr xs) @ '']''"
| "py_repr (JObj kvs) =
     ''{'' @ join '', '' (map (\<lambda>kv. repr_str (fst kv) @ '': '' @ py_repr (snd kv)) kvs) @ ''}''"

fun py_str :: "json \<Rightarrow> string" where
  "py_str (JStr s) = s"
| "py_str v = py_repr v"

section \<open>The environment\<close>

text \<open>
  What the operating system answers: \<open>os.getpid()\<close>, \<open>os.path.abspath\<close>,
  \<open>os.path.isfile\<close>, \<open>os.path.isdir\<close>, reading a file as UTF-8 text,
  \<open>subprocess.Popen\<close> on a server command (the exception it raises, if any) and
  \<open>subprocess.run\<close> of a command on an input text.
\<close>

datatype completed = Completed (returncode: int) (stdout: string) | RunRaises exn

record world =
  getpid :: int
  abspath :: "string \<Rightarrow> string"
  isfile :: "string \<Rightarrow> bool"
  isdir :: "string \<Rightarrow> bool"
  read_text :: "string \<Rightarrow> exn + string"
  popen :: "string list \<Rightarrow> exn option"
  run :: "string list \<Rightarrow> string \<Rightarrow> completed"

section \<open>The language server manager\<close>

text \<open>
  The two concrete managers that the service constructs. \<open>language\<close>, \<open>server_command\<close>
  and \<open>_server_settings\<close> are as each class sets them (python_server.py, lines 21 and 51 to
  74; javascript_server.py, lines 21 and 40 to 59).
\<close>

datatype backend = Python | JavaScript

fun language_of :: "backend \<Rightarrow> string" where
  "language_of Python = ''python''"
| "language_of JavaScript = ''javascript''"

fun server_command :: "backend \<Rightarrow> string list" where
  "server_command Python = [''pylsp'']"
| "server_command JavaScript = [''typescript-language-server'', ''--stdio'']"

fun server_settings :: "backend \<Rightarrow> json" where
  "server_settings Python =
     JObj [(''pylsp'', JObj [(''plugins'', JObj
       [(''jedi'', JObj [(''enabled'', JBool True)]),
        (''pylint'', JObj [(''enabled'', JBool True), (''executable'', JStr ''pylint'')]),
        (''pycodestyle'', JObj [(''enabled'', JBool True)]),
        (''black'', JObj [(''enabled'', JBool True)])])])]"
| "server_settings JavaScript =
     JObj [(''typescript'', JObj
       [(''format'', JObj
          [(''enable'', JBool True),
           (''insertSpaceAfterCommaDelimiter'', JBool True),
           (''insertSpaceAfterConstructor'', JBool False),
           (''insertSpaceAfterSemicolonInForStatements'', JBool True),
           (''insertSpaceBeforeAndAfterBinaryOperators'', JBool True)]),
        (''suggest'', JObj
          [(''completeFunctionCalls'', JBool True),
           (''includeCompletionsForImportStatements'', JBool True)])])]"

datatype log_level = DEBUG | INFO | WARNING | ERROR

datatype log_record =
    ServerLog log_level string
  | ReaderError exn

text \<open>
  The attributes of \<open>BaseLanguageServerManager\<close> that the modelled methods read or write;
  \<open>backend\<close> is the class of the object.
  \<open>server_process\<close> is \<open>None\<close> or a process handle, of which only \<open>poll() is None\<close> is
  observed (\<open>Some True\<close>: the process is alive). A request callback is an opaque handle; its
  invocations are recorded in \<open>invoked\<close>. \<open>write_queue\<close> holds, in order, the messages put on
  the outbound queue, which the writer thread drains on its own. \<open>reader_alive\<close> says that the
  reader thread exists and has not left its loop. \<open>logged\<close> holds the records that the reader
  path writes to the logger.
\<close>

record manager =
  backend :: backend
  workspace_path :: string
  server_process :: "bool option"
  request_callbacks :: "string \<rightharpoonup> nat"
  next_request_id :: int
  response_queue :: "message list"
  write_queue :: "message list"
  running :: bool
  reader_alive :: bool
  logged :: "log_record list"
  invoked :: "(nat \<times> message) list"

text \<open>\<open>__init__\<close> (base.py, lines 21 to 39).\<close>

definition init_manager :: "world \<Rightarrow> backend \<Rightarrow> string \<Rightarrow> manager" where
  "init_manager w b ws =
     \<lparr> backend = b, workspace_path = abspath w ws, server_process = None,
       request_callbacks = Map.empty, next_request_id = 1, response_queue = [],
       write_queue = [], running = False, reader_alive = False, logged = [], invoked = [] \<rparr>"

definition language :: "manager \<Rightarrow> string" where
  "language st = language_of (backend st)"

text \<open>\<open>is_running\<close> (python_server.py line 127, javascript_server.py line 112).\<close>

definition is_running :: "manager \<Rightarrow> bool" where
  "is_running st = (server_process st = Some True)"

subsection \<open>Notifications\<close>

text \<open>
  \<open>log_levels.get(message_type, logging.INFO)\<close>: hashing a list or a dict raises
  \<open>TypeError\<close>; \<open>True\<close> is equal to 1 and \<open>False\<close> to 0 as a dict key.
\<close>

definition log_levels :: "(int \<times> log_level) list" where
  "log_levels = [(1, ERROR), (2, WARNING), (3, INFO), (4, DEBUG)]"

fun log_levels_get :: "json \<Rightarrow> log_level \<Rightarrow> exn + log_level" where
  "log_levels_get (JInt n) dflt = Inr (case map_of log_levels n of None \<Rightarrow> dflt | Some l \<Rightarrow> l)"
| "log_levels_get (JBool b) dflt =
     Inr (case map_of log_levels (if b then 1 else 0) of None \<Rightarrow> dflt | Some l \<Rightarrow> l)"
| "log_levels_get JNull dflt = Inr dflt"
| "log_levels_get (JStr s) dflt = Inr dflt"
| "log_levels_get (JList xs) dflt = Inl TypeError"
| "log_levels_get (JObj kvs) dflt = Inl TypeError"

text \<open>
  \<open>_handle_notification\<close> (base.py, lines 218 to 239). The result is the record passed to
  the logger, if any. \<open>params.get\<close> raises \<open>AttributeError\<close> when \<open>params\<close> is not a dict.
\<close>

definition handle_notification :: "message \<Rightarrow> exn + log_record option" where
  "handle_notification notification =
     (let method = dict_get notification ''method'' (JStr '''') in
      if method = JStr ''window/logMessage'' then
        (case dict_get notification ''params'' (JObj []) of
           JObj params \<Rightarrow>
             (let message_type = dict_get params ''type'' (JInt 4);
                  msg = dict_get params ''message'' (JStr '''')
              in case log_levels_get message_type INFO of
                   Inl e \<Rightarrow> Inl e
                 | Inr level \<Rightarrow> Inr (Some (ServerLog level (''LSP server: '' @ py_str msg))))
         | _ \<Rightarrow> Inl (AttributeError ''get''))
      else Inr None)"

subsection \<open>Inbound messages\<close>

text \<open>\<open>_process_lsp_message\<close> (base.py, lines 198 to 216).\<close>

definition process_lsp_message :: "manager \<Rightarrow> message \<Rightarrow> exn + manager" where
  "process_lsp_message st message =
     (if dict_in ''id'' message \<and> dict_in ''result'' message then
        (let request_id = py_str (dict_get message ''id'' JNull) in
         case request_callbacks st request_id of
           Some callback \<Rightarrow>
             Inr (st\<lparr> request_callbacks := (request_callbacks st)(request_id := None),
                      invoked := invoked st @ [(callback, message)] \<rparr>)
         | None \<Rightarrow> Inr (st\<lparr> response_queue := response_queue st @ [message] \<rparr>))
      else if dict_in ''method'' message \<and> \<not> dict_in ''id'' message then
        (case handle_notification message of
           Inl e \<Rightarrow> Inl e
         | Inr None \<Rightarrow> Inr st
         | Inr (Some r) \<Rightarrow> Inr (st\<lparr> logged := logged st @ [r] \<rparr>))
      else Inr st)"

text \<open>
  The loop of \<open>_lsp_reader\<close> (base.py, lines 140 to 167) over the messages that it decodes,
  in the order the backend wrote them. An exception is logged and ends the loop; so does
  \<open>running\<close> becoming false or the process having exited.
\<close>

fun lsp_reader :: "manager \<Rightarrow> message list \<Rightarrow> manager" where
  "lsp_reader st [] = st"
| "lsp_reader st (m # ms) =
     (if \<not> reader_alive st then st
      else if \<not> (running st \<and> server_process st = Some True) then st\<lparr> reader_alive := False \<rparr>
      else case process_lsp_message st m of
             Inl e \<Rightarrow> st\<lparr> reader_alive := False, logged := logged st @ [ReaderError e] \<rparr>
           | Inr st' \<Rightarrow> lsp_reader st' ms)"

subsection \<open>Outbound messages\<close>

definition make_request :: "string \<Rightarrow> string \<Rightarrow> json \<Rightarrow> message" where
  "make_request request_id method params =
     [(''jsonrpc'', JStr ''2.0''), (''id'', JStr request_id), (''method'', JStr method),
      (''params'', params)]"

text \<open>
  \<open>_send_request_sync\<close> (base.py, lines 310 to 340) in its two halves: lines 320 to 331
  allocate the id and enqueue the request; lines 334 to 340 take the next item of
  \<open>response_queue\<close>, or return the empty dict when none arrived before the timeout. The
  calling thread blocks between the two while the reader thread runs.
\<close>

definition issue_request :: "manager \<Rightarrow> string \<Rightarrow> json \<Rightarrow> string \<times> manager" where
  "issue_request st method params =
     (let request_id = show_int (next_request_id st) in
      (request_id,
       st\<lparr> next_request_id := next_request_id st + 1,
           write_queue := write_queue st @ [make_request request_id method params] \<rparr>))"

definition await_response :: "manager \<Rightarrow> message \<times> manager" where
  "await_response st =
     (case response_queue st of
        [] \<Rightarrow> ([], st)
      | response # rest \<Rightarrow> (response, st\<lparr> response_queue := rest \<rparr>))"

text \<open>
  The whole call; \<open>arrivals\<close> are the messages that the reader thread decodes while the
  caller waits.
\<close>

definition send_request_sync :: "manager \<Rightarrow> string \<Rightarrow> json \<Rightarrow> message list \<Rightarrow> message \<times> manager" where
  "send_request_sync st method params arrivals =
     (let (request_id, st1) = issue_request st method params
      in await_response (lsp_reader st1 arrivals))"

text \<open>\<open>_send_request_async\<close> (base.py, lines 342 to 364).\<close>

definition send_request_async :: "manager \<Rightarrow> string \<Rightarrow> json \<Rightarrow> nat \<Rightarrow> manager" where
  "send_request_async st method params callback =
     (let request_id = show_int (next_request_id st) in
      st\<lparr> next_request_id := next_request_id st + 1,
          request_callbacks := (request_callbacks st)(request_id \<mapsto> callback),
          write_queue := write_queue st @ [make_request request_id method params] \<rparr>)"

text \<open>\<open>_send_notification\<close> (base.py, lines 366 to 380).\<close>

definition send_notification :: "manager \<Rightarrow> string \<Rightarrow> json \<Rightarrow> manager" where
  "send_notification st method params =
     st\<lparr> write_queue := write_queue st @
          [[(''jsonrpc'', JStr ''2.0''), (''method'', JStr method), (''params'', params)]] \<rparr>"

section \<open>Framing\<close>

type_synonym bytes = string

text \<open>
  The standard output of the backend is the sequence of bytes that it writes; a read takes
  bytes from its front. \<open>readline\<close> returns the bytes up to and including the first
  newline, or all of them when there is none.
\<close>

fun readline :: "bytes \<Rightarrow> bytes \<times> bytes" where
  "readline [] = ([], [])"
| "readline (c # cs) =
     (if c = CHR 0x0A then ([c], cs) else (let (l, rest) = readline cs in (c # l, rest)))"

text \<open>
  The pipe is opened unbuffered (\<open>bufsize=0\<close>), so \<open>stdout\<close> is a raw file and \<open>read(n)\<close> is
  one system call: it returns the bytes that are in the pipe when it returns, at most \<open>n\<close> of
  them; \<open>ready\<close> is their number. Before the call a buffer of \<open>n\<close> bytes is allocated: a size
  above \<open>sys.maxsize\<close> raises \<open>OverflowError\<close>, and a size above what can be allocated,
  \<open>alloc_limit\<close>, raises \<open>MemoryError\<close>. A negative size reads to the end of the stream.
\<close>

record pipe =
  ready :: nat
  alloc_limit :: nat

definition maxsize :: int where
  "maxsize = 2 ^ 63 - 1"

definition read_n :: "pipe \<Rightarrow> int \<Rightarrow> bytes \<Rightarrow> exn + bytes \<times> bytes" where
  "read_n p n s =
     (if n < 0 then Inr (s, [])
      else if maxsize < n then Inl OverflowError
      else if alloc_limit p < nat n then Inl MemoryError
      else (let k = min (nat n) (ready p) in Inr (take k s, drop k s)))"

text \<open>\<open>bytes.strip()\<close> removes ASCII whitespace at both ends.\<close>

definition bytes_isspace :: "char \<Rightarrow> bool" where
  "bytes_isspace c = (c \<in> set [CHR 0x20, CHR 0x09, CHR 0x0A, CHR 0x0D, CHR 0x0B, CHR 0x0C])"

definition strip :: "bytes \<Rightarrow> bytes" where
  "strip s = rev (dropWhile bytes_isspace (rev (dropWhile bytes_isspace s)))"

text \<open>\<open>bytes.split(sep)\<close> for a separator of one byte.\<close>

fun split_on :: "char \<Rightarrow> bytes \<Rightarrow> bytes list" where
  "split_on sep [] = [[]]"
| "split_on sep (c # cs) =
     (if c = sep then [] # split_on sep cs
      else (case split_on sep cs of [] \<Rightarrow> [[c]] | p # ps \<Rightarrow> (c # p) # ps))"

text \<open>
  \<open>int(b)\<close> in base 10: whitespace around, an optional sign, then decimal digits in which
  single underscores may separate digits. More than 4300 digits are refused.
\<close>

definition is_digit :: "char \<Rightarrow> bool" where
  "is_digit c = (c \<in> set ''0123456789'')"

definition digit_val :: "char \<Rightarrow> nat" where
  "digit_val c = of_char c - 48"

fun py_digits :: "bool \<Rightarrow> nat \<Rightarrow> bytes \<Rightarrow> nat option" where
  "py_digits prev acc [] = (if prev then Some acc else None)"
| "py_digits prev acc (c # cs) =
     (if is_digit c then py_digits True (10 * acc + digit_val c) cs
      else if c = CHR ''_'' \<and> prev then py_digits False acc cs
      else None)"

definition int_max_str_digits :: nat where
  "int_max_str_digits = 4300"

definition py_int :: "bytes \<Rightarrow> exn + int" where
  "py_int b =
     (let s = strip b;
          (neg, ds) = (case s of
                         c # cs \<Rightarrow> if c = CHR ''-'' then (True, cs)
                                   else if c = CHR ''+'' then (False, cs) else (False, s)
                       | [] \<Rightarrow> (False, s))
      in if int_max_str_digits < length (filter is_digit ds) then Inl (ValueError ''int'')
         else case py_digits False 0 ds of
                None \<Rightarrow> Inl (ValueError ''int'')
              | Some n \<Rightarrow> Inr (if neg then - int n else int n))"

text \<open>
  One pass of the loop body of \<open>_lsp_reader\<close> (base.py, lines 142 to 157), up to the bytes
  handed to the JSON decoder: \<open>Frame content rest\<close> when a message body was read,
  \<open>Skipped rest\<close> when the line read was empty or not a \<open>Content-Length\<close> header, and
  \<open>Failed e\<close> when an exception ends the loop.
\<close>

datatype frame_result = Frame bytes bytes | Skipped bytes | Failed exn

definition read_frame :: "pipe \<Rightarrow> string \<Rightarrow> bytes \<Rightarrow> frame_result" where
  "read_frame p lang stream =
     (let (raw, s1) = readline stream;
          line = strip raw
      in if line = [] then Skipped s1
         else if prefix ''Content-Length:'' line then
           (case split_on CHR '':'' line of
              _ # piece # _ \<Rightarrow>
                (case py_int piece of
                   Inl e \<Rightarrow> Failed e
                 | Inr content_length \<Rightarrow>
                     (let s2 = snd (readline s1);
                          s3 = (if lang = ''python'' then snd (readline s2) else s2)
                      in case read_n p content_length s3 of
                           Inl e \<Rightarrow> Failed e
                         | Inr (content, s4) \<Rightarrow> Frame content s4))
            | _ \<Rightarrow> Failed IndexError)
         else Skipped s1)"

section \<open>Applying text edits\<close>

text \<open>
  A \<open>TextEdit\<close> with integer coordinates: \<open>edit["range"]["start"]["line"]\<close> and so on,
  and \<open>edit["newText"]\<close>.
\<close>

record text_edit =
  start_line :: int
  start_character :: int
  end_line :: int
  end_character :: int
  newText :: string

text \<open>
  \<open>str.splitlines(True)\<close>: the line boundaries among the code points 0 to 255, with
  \<open>\\r\\n\<close> as one boundary; every line keeps its terminator.
\<close>

definition is_linebreak :: "char \<Rightarrow> bool" where
  "is_linebreak c =
     (c \<in> set [CHR 0x0A, CHR 0x0D, CHR 0x0B, CHR 0x0C, CHR 0x1C, CHR 0x1D, CHR 0x1E, CHR 0x85])"

fun splitlines :: "string \<Rightarrow> string list" where
  "splitlines [] = []"
| "splitlines [c] = [[c]]"
| "splitlines (c # d # cs) =
     (if c = CHR 0x0D \<and> d = CHR 0x0A then [c, d] # splitlines cs
      else if is_linebreak c then [c] # splitlines (d # cs)
      else (case splitlines (d # cs) of [] \<Rightarrow> [[c]] | l # ls \<Rightarrow> (c # l) # ls))"

text \<open>\<open>sum(len(lines[i]) for i in range(n))\<close>; \<open>lines[i]\<close> raises \<open>IndexError\<close> out of range.\<close>

definition py_range :: "int \<Rightarrow> nat list" where
  "py_range n = [0..<nat n]"

fun sum_line_lengths :: "string list \<Rightarrow> nat list \<Rightarrow> exn + int" where
  "sum_line_lengths lines [] = Inr 0"
| "sum_line_lengths lines (i # is) =
     (if i < length lines then
        (case sum_line_lengths lines is of
           Inl e \<Rightarrow> Inl e
         | Inr s \<Rightarrow> Inr (int (length (lines ! i)) + s))
      else Inl IndexError)"

text \<open>The slices \<open>s[:i]\<close> and \<open>s[i:]\<close>; a negative index counts from the end.\<close>

definition slice_to :: "string \<Rightarrow> int \<Rightarrow> string" where
  "slice_to s i = (if i < 0 then take (length s - nat (- i)) s else take (nat i) s)"

definition slice_from :: "string \<Rightarrow> int \<Rightarrow> string" where
  "slice_from s i = (if i < 0 then drop (length s - nat (- i)) s else drop (nat i) s)"

text \<open>The body of the loop over the edits (python_server.py, lines 279 to 291).\<close>

definition apply_edit :: "string \<Rightarrow> text_edit \<Rightarrow> exn + string" where
  "apply_edit new_content edit =
     (let lines = splitlines new_content in
      case sum_line_lengths lines (py_range (start_line edit)) of
        Inl e \<Rightarrow> Inl e
      | Inr a \<Rightarrow>
          (let start_offset = a + start_character edit in
           case sum_line_lengths lines (py_range (end_line edit)) of
             Inl e \<Rightarrow> Inl e
           | Inr b \<Rightarrow>
               (let end_offset = b + end_character edit in
                Inr (slice_to new_content start_offset @ newText edit
                     @ slice_from new_content end_offset))))"

fun apply_in_order :: "string \<Rightarrow> text_edit list \<Rightarrow> exn + string" where
  "apply_in_order new_content [] = Inr new_content"
| "apply_in_order new_content (edit # edits) =
     (case apply_edit new_content edit of
        Inl e \<Rightarrow> Inl e
      | Inr c \<Rightarrow> apply_in_order c edits)"

text \<open>
  The loop with its order (python_server.py and javascript_server.py, line 278):
  \<open>sorted(result, key=lambda e: -1 * e["range"]["start"]["line"])\<close>. Both \<open>sorted\<close> and
  \<open>sort_key\<close> are stable.
\<close>

definition apply_edits :: "string \<Rightarrow> text_edit list \<Rightarrow> exn + string" where
  "apply_edits content result = apply_in_order content (sort_key (\<lambda>e. - 1 * start_line e) result)"

section \<open>Paths\<close>

text \<open>\<open>_uri_to_path\<close> and \<open>_path_to_uri\<close> (base.py, lines 382 to 404).\<close>

definition uri_to_path :: "json \<Rightarrow> exn + string" where
  "uri_to_path uri =
     (case uri of
        JStr u \<Rightarrow> Inr (if prefix ''file://'' u then drop 7 u else u)
      | _ \<Rightarrow> Inl (AttributeError ''startswith''))"

definition path_to_uri :: "world \<Rightarrow> string \<Rightarrow> string" where
  "path_to_uri w path = ''file://'' @ abspath w path"

text \<open>\<open>str.rfind\<close> for one character, and \<open>os.path.splitext\<close> of \<open>posixpath\<close>.\<close>

fun rfind :: "char \<Rightarrow> string \<Rightarrow> int" where
  "rfind c [] = - 1"
| "rfind c (x # xs) = (let r = rfind c xs in if 0 \<le> r then r + 1 else if x = c then 0 else - 1)"

definition splitext :: "string \<Rightarrow> string \<times> string" where
  "splitext p =
     (let sepIndex = rfind CHR ''/'' p;
          dotIndex = rfind CHR ''.'' p
      in if sepIndex < dotIndex \<and>
            (\<exists>i \<in> set [nat (sepIndex + 1) ..< nat dotIndex]. p ! i \<noteq> CHR ''.'')
         then (take (nat dotIndex) p, drop (nat dotIndex) p)
         else (p, []))"

text \<open>\<open>str.lower\<close> on the code points 0 to 255.\<close>

definition lower_char :: "char \<Rightarrow> char" where
  "lower_char c =
     (let n = (of_char c :: nat)
      in if (65 \<le> n \<and> n \<le> 90) \<or> (192 \<le> n \<and> n \<le> 222 \<and> n \<noteq> 215) then char_of (n + 32) else c)"

definition lower :: "string \<Rightarrow> string" where
  "lower s = map lower_char s"

section \<open>Starting the server\<close>

text \<open>
  \<open>_initialize_lsp_server\<close> (base.py, lines 241 to 296). \<open>initialization_options\<close> is the
  empty dict: the base constructor assigns it (line 39) after the subclass did.
\<close>

definition initialize_params :: "world \<Rightarrow> manager \<Rightarrow> json" where
  "initialize_params w st =
     JObj [(''processId'', JInt (getpid w)),
           (''rootPath'', JStr (workspace_path st)),
           (''rootUri'', JStr (''file://'' @ workspace_path st)),
           (''capabilities'', JObj
              [(''textDocument'', JObj
                  [(''synchronization'', JObj [(''didSave'', JBool True), (''willSave'', JBool True)]),
                   (''completion'', JObj
                      [(''completionItem'', JObj [(''snippetSupport'', JBool True)])]),
                   (''signatureHelp'', JObj []),
                   (''definition'', JObj []),
                   (''references'', JObj []),
                   (''documentHighlight'', JObj []),
                   (''formatting'', JObj []),
                   (''rangeFormatting'', JObj []),
                   (''onTypeFormatting'', JObj []),
                   (''rename'', JObj []),
                   (''publishDiagnostics'', JObj [])]),
               (''workspace'', JObj
                  [(''applyEdit'', JBool True),
                   (''workspaceEdit'', JObj [(''documentChanges'', JBool True)]),
                   (''didChangeConfiguration'', JObj []),
                   (''didChangeWatchedFiles'', JObj [])])]),
           (''initializationOptions'', JObj []),
           (''trace'', JStr ''verbose'')]"

definition initialize_lsp_server :: "world \<Rightarrow> manager \<Rightarrow> message list \<Rightarrow> manager" where
  "initialize_lsp_server w st arrivals =
     (let (response, st1) = send_request_sync st ''initialize'' (initialize_params w st) arrivals
      in if response \<noteq> [] \<and> dict_in ''result'' response then
           send_notification (send_notification st1 ''initialized'' (JObj []))
             ''workspace/didChangeConfiguration'' (JObj [(''settings'', JObj [])])
         else st1)"

text \<open>
  \<open>_start_lsp_communication\<close> (base.py, lines 94 to 119): the reader and writer threads are
  started, then the handshake runs on the calling thread.
\<close>

definition start_lsp_communication :: "world \<Rightarrow> manager \<Rightarrow> message list \<Rightarrow> manager" where
  "start_lsp_communication w st arrivals =
     (if server_process st = None then st
      else initialize_lsp_server w (st\<lparr> running := True, reader_alive := True \<rparr>) arrivals)"

text \<open>\<open>_configure_server\<close> (python_server.py, lines 129 to 134).\<close>

definition configure_server :: "manager \<Rightarrow> manager" where
  "configure_server st =
     send_notification st ''workspace/didChangeConfiguration''
       (JObj [(''settings'', server_settings (backend st))])"

text \<open>
  \<open>start\<close> (python_server.py, lines 76 to 102; javascript_server.py, lines 61 to 87). The
  result is the exception that the call raises, if any: the handler logs the exception
  of \<open>subprocess.Popen\<close> and raises it again (line 102). \<open>arrivals\<close> are the messages decoded
  while the handshake waits.
\<close>

definition start :: "world \<Rightarrow> manager \<Rightarrow> message list \<Rightarrow> exn option \<times> manager" where
  "start w st arrivals =
     (if is_running st then (None, st)
      else case popen w (server_command (backend st)) of
             Some e \<Rightarrow> (Some e, st)
           | None \<Rightarrow>
               (None, configure_server
                        (start_lsp_communication w (st\<lparr> server_process := Some True \<rparr>) arrivals)))"

text \<open>\<open>if not self.is_running(): self.start()\<close>, the first step of every operation below.\<close>

definition ensure_running :: "world \<Rightarrow> manager \<Rightarrow> message list \<Rightarrow> exn option \<times> manager" where
  "ensure_running w st arrivals = (if \<not> is_running st then start w st arrivals else (None, st))"

section \<open>Definitions and references\<close>

text \<open>Python's \<open>for x in xs: ys.append(f(x))\<close> where \<open>f\<close> may raise.\<close>

fun map_exn :: "('a \<Rightarrow> exn + 'b) \<Rightarrow> 'a list \<Rightarrow> exn + 'b list" where
  "map_exn f [] = Inr []"
| "map_exn f (x # xs) =
     (case f x of
        Inl e \<Rightarrow> Inl e
      | Inr y \<Rightarrow> (case map_exn f xs of Inl e \<Rightarrow> Inl e | Inr ys \<Rightarrow> Inr (y # ys)))"

text \<open>
  The conversion of one location (base.py, lines 445 to 450 and 507 to 512):
  \<open>location.get\<close> needs a dict and \<open>uri.startswith\<close> a string.
\<close>

definition convert_location :: "json \<Rightarrow> exn + json" where
  "convert_location location =
     (case location of
        JObj d \<Rightarrow>
          (let uri = dict_get d ''uri'' (JStr '''');
               range_data = dict_get d ''range'' (JObj [])
           in case uri_to_path uri of
                Inl e \<Rightarrow> Inl e
              | Inr path \<Rightarrow> Inr (JObj [(''path'', JStr path), (''range'', range_data)]))
      | _ \<Rightarrow> Inl (AttributeError ''get''))"

definition position_params :: "world \<Rightarrow> string \<Rightarrow> int \<Rightarrow> int \<Rightarrow> dict" where
  "position_params w file_path line character =
     [(''textDocument'', JObj [(''uri'', JStr (path_to_uri w file_path))]),
      (''position'', JObj [(''line'', JInt line), (''character'', JInt character)])]"

text \<open>
  \<open>BaseLanguageServerManager.get_definition\<close> (base.py, lines 406 to 465). The result is
  the value returned or the exception raised, with the manager as the call leaves it.
  \<open>arr_init\<close> and \<open>arr_req\<close> are the messages decoded during the handshake of \<open>start\<close> and
  during the wait for the response.
\<close>

definition get_definition ::
  "world \<Rightarrow> manager \<Rightarrow> string \<Rightarrow> int \<Rightarrow> int \<Rightarrow> message list \<Rightarrow> message list \<Rightarrow> (exn + json) \<times> manager"
where
  "get_definition w st file_path line character arr_init arr_req =
     (case ensure_running w st arr_init of
        (Some e, st1) \<Rightarrow> (Inl e, st1)
      | (None, st1) \<Rightarrow>
          (let params = JObj (position_params w file_path line character);
               (response, st2) = send_request_sync st1 ''textDocument/definition'' params arr_req;
               result = dict_get response ''result'' JNull
           in case result of
                JList locs \<Rightarrow>
                  (case map_exn convert_location locs of
                     Inl e \<Rightarrow> (Inl e, st2)
                   | Inr locations \<Rightarrow> (Inr (JObj [(''locations'', JList locations)]), st2))
              | JObj d \<Rightarrow>
                  (case convert_location (JObj d) of
                     Inl e \<Rightarrow> (Inl e, st2)
                   | Inr location \<Rightarrow> (Inr (JObj [(''locations'', JList [location])]), st2))
              | _ \<Rightarrow> (Inr (JObj [(''locations'', JList [])]), st2)))"

text \<open>
  What \<open>for reference in result\<close> iterates over: the elements of a list, the characters of
  a string, the keys of a dict; any other value is not iterable.
\<close>

fun py_iter :: "json \<Rightarrow> exn + json list" where
  "py_iter (JList xs) = Inr xs"
| "py_iter (JStr s) = Inr (map (\<lambda>c. JStr [c]) s)"
| "py_iter (JObj kvs) = Inr (map (\<lambda>kv. JStr (fst kv)) kvs)"
| "py_iter v = Inl TypeError"

text \<open>\<open>BaseLanguageServerManager.get_references\<close> (base.py, lines 467 to 514).\<close>

definition get_references ::
  "world \<Rightarrow> manager \<Rightarrow> string \<Rightarrow> int \<Rightarrow> int \<Rightarrow> message list \<Rightarrow> message list \<Rightarrow> (exn + json) \<times> manager"
where
  "get_references w st file_path line character arr_init arr_req =
     (case ensure_running w st arr_init of
        (Some e, st1) \<Rightarrow> (Inl e, st1)
      | (None, st1) \<Rightarrow>
          (let params = JObj (position_params w file_path line character
                              @ [(''context'', JObj [(''includeDeclaration'', JBool True)])]);
               (response, st2) = send_request_sync st1 ''textDocument/references'' params arr_req;
               result = dict_get response ''result'' (JList [])
           in case py_iter result of
                Inl e \<Rightarrow> (Inl e, st2)
              | Inr refs \<Rightarrow>
                  (case map_exn convert_location refs of
                     Inl e \<Rightarrow> (Inl e, st2)
                   | Inr references \<Rightarrow> (Inr (JList references), st2))))"

section \<open>Formatting\<close>

text \<open>
  Reading the edits out of the decoded result. The loop (python_server.py, lines 278 to
  291) subscripts each edit with \<open>"range"\<close>, \<open>"start"\<close>, \<open>"end"\<close>, \<open>"line"\<close>, \<open>"character"\<close>
  and \<open>"newText"\<close>, uses the coordinates as integers (a boolean is one) and concatenates the
  new text to a string; on any other value one of these steps raises inside the \<open>try\<close>
  block, which \<open>None\<close> stands for.
\<close>

fun as_int :: "json \<Rightarrow> int option" where
  "as_int (JInt n) = Some n"
| "as_int (JBool b) = Some (if b then 1 else 0)"
| "as_int v = None"

definition decode_position :: "json \<Rightarrow> (int \<times> int) option" where
  "decode_position v =
     (case v of
        JObj d \<Rightarrow>
          (case (map_of d ''line'', map_of d ''character'') of
             (Some l, Some c) \<Rightarrow>
               (case (as_int l, as_int c) of (Some a, Some b) \<Rightarrow> Some (a, b) | _ \<Rightarrow> None)
           | _ \<Rightarrow> None)
      | _ \<Rightarrow> None)"

definition decode_edit :: "json \<Rightarrow> text_edit option" where
  "decode_edit v =
     (case v of
        JObj d \<Rightarrow>
          (case (map_of d ''range'', map_of d ''newText'') of
             (Some (JObj r), Some (JStr t)) \<Rightarrow>
               (case (map_of r ''start'', map_of r ''end'') of
                  (Some s, Some e) \<Rightarrow>
                    (case (decode_position s, decode_position e) of
                       (Some (sl, sc), Some (el, ec)) \<Rightarrow>
                         Some \<lparr> start_line = sl, start_character = sc, end_line = el,
                                end_character = ec, newText = t \<rparr>
                     | _ \<Rightarrow> None)
                | _ \<Rightarrow> None)
           | _ \<Rightarrow> None)
      | _ \<Rightarrow> None)"

definition decode_edits :: "json \<Rightarrow> text_edit list option" where
  "decode_edits result = (case result of JList xs \<Rightarrow> those (map decode_edit xs) | _ \<Rightarrow> None)"

text \<open>
  The protocol path between the response and the \<open>except\<close> clause (python_server.py, lines
  272 to 300): \<open>Inr (Some new_content)\<close> when the edits were applied, \<open>Inr None\<close> when
  control falls through to the fallback, \<open>Inl e\<close> when an exception reaches the handler of
  line 305 (which exception is not distinguished for an ill-formed edit).
\<close>

definition lsp_formatting :: "string \<Rightarrow> message \<Rightarrow> exn + string option" where
  "lsp_formatting content response =
     (if response \<noteq> [] \<and> dict_in ''result'' response then
        (let result = dict_get response ''result'' JNull in
         if truthy result then
           (case decode_edits result of
              None \<Rightarrow> Inl TypeError
            | Some edits \<Rightarrow>
                (case apply_edits content edits of
                   Inl e \<Rightarrow> Inl e
                 | Inr new_content \<Rightarrow> Inr (Some new_content)))
         else Inr None)
      else Inr None)"

text \<open>
  What differs between the two managers: the language id of \<open>didOpen\<close>, the options of
  the request and the fallback command (\<open>black_cmd\<close>, and \<open>prettier_cmd + [file_path]\<close>).
\<close>

definition language_id_map :: "(string \<times> string) list" where
  "language_id_map =
     [(''.js'', ''javascript''), (''.ts'', ''typescript''), (''.jsx'', ''javascriptreact''),
      (''.tsx'', ''typescriptreact'')]"

fun language_id :: "backend \<Rightarrow> string \<Rightarrow> string" where
  "language_id Python file_path = ''python''"
| "language_id JavaScript file_path =
     dict_get language_id_map (lower (snd (splitext file_path))) ''javascript''"

fun formatting_options :: "backend \<Rightarrow> json" where
  "formatting_options Python = JObj [(''tabSize'', JInt 4), (''insertSpaces'', JBool True)]"
| "formatting_options JavaScript = JObj [(''tabSize'', JInt 2), (''insertSpaces'', JBool True)]"

fun fallback_command :: "backend \<Rightarrow> string \<Rightarrow> string list" where
  "fallback_command Python file_path = [''black'', ''-'']"
| "fallback_command JavaScript file_path = [''npx'', ''prettier'', ''--stdin-filepath'', file_path]"

definition formatting_request :: "manager \<Rightarrow> string \<Rightarrow> json" where
  "formatting_request st document_uri =
     JObj [(''textDocument'', JObj [(''uri'', JStr document_uri)]),
           (''options'', formatting_options (backend st))]"

definition did_open :: "manager \<Rightarrow> string \<Rightarrow> string \<Rightarrow> string \<Rightarrow> manager" where
  "did_open st file_path document_uri content =
     send_notification st ''textDocument/didOpen''
       (JObj [(''textDocument'', JObj
          [(''uri'', JStr document_uri),
           (''languageId'', JStr (language_id (backend st) file_path)),
           (''version'', JInt 1),
           (''text'', JStr content)])])"

text \<open>
  \<open>run_formatter\<close> (python_server.py, lines 222 to 328; javascript_server.py, lines 212 to
  328).
\<close>

definition run_formatter ::
  "world \<Rightarrow> manager \<Rightarrow> string \<Rightarrow> message list \<Rightarrow> message list \<Rightarrow> (exn + string) \<times> manager"
where
  "run_formatter w st file_path arr_init arr_req =
     (if \<not> isfile w file_path then (Inl (ValueError (''File not found: '' @ file_path)), st)
      else case ensure_running w st arr_init of
        (Some e, st1) \<Rightarrow> (Inl e, st1)
      | (None, st1) \<Rightarrow>
          (case read_text w file_path of
             Inl e \<Rightarrow> (Inl e, st1)
           | Inr content \<Rightarrow>
               (let document_uri = path_to_uri w file_path;
                    st2 = did_open st1 file_path document_uri content;
                    (response, st3) =
                      send_request_sync st2 ''textDocument/formatting''
                        (formatting_request st document_uri) arr_req
                in case lsp_formatting content response of
                     Inr (Some new_content) \<Rightarrow>
                       (Inr new_content,
                        send_notification st3 ''textDocument/didClose''
                          (JObj [(''textDocument'', JObj [(''uri'', JStr document_uri)])]))
                   | _ \<Rightarrow>
                       (case run w (fallback_command (backend st) file_path) content of
                          Completed rc out \<Rightarrow> (Inr (if rc = 0 then out else content), st3)
                        | RunRaises e \<Rightarrow> (Inr content, st3)))))"

section \<open>Attribute lookup\<close>

text \<open>
  The names that each class body defines, and the names that the constructors assign on
  the instance. \<open>self.name\<close> finds an instance attribute, else the first class of the
  method resolution order that defines \<open>name\<close>, else raises \<open>AttributeError\<close>. The names
  that \<open>object\<close> and \<open>abc.ABC\<close> contribute are not listed.
\<close>

datatype cls = BaseLanguageServerManager | Manager backend

datatype attr = Field | Method cls

fun class_methods :: "cls \<Rightarrow> string list" where
  "class_methods BaseLanguageServerManager =
     [''__init__'', ''language'', ''start'', ''stop'', ''is_running'', ''run_linter'',
      ''run_formatter'', ''_start_lsp_communication'', ''_stop_lsp_communication'',
      ''_lsp_reader'', ''_lsp_writer'', ''_process_lsp_message'', ''_handle_notification'',
      ''_initialize_lsp_server'', ''_send_shutdown_request'', ''_send_request_sync'',
      ''_send_request_async'', ''_send_notification'', ''_uri_to_path'', ''_path_to_uri'',
      ''get_definition'', ''get_references'']"
| "class_methods (Manager Python) =
     [''language'', ''__init__'', ''start'', ''stop'', ''is_running'', ''_configure_server'',
      ''run_linter'', ''run_formatter'', ''get_definition'', ''get_references'']"
| "class_methods (Manager JavaScript) =
     [''language'', ''__init__'', ''start'', ''stop'', ''is_running'', ''_configure_server'',
      ''run_linter'', ''run_formatter'']"

fun instance_attributes :: "backend \<Rightarrow> string list" where
  "instance_attributes b =
     [''initialization_options'', ''workspace_path'', ''logger'', ''server_process'',
      ''request_callbacks'', ''next_request_id'', ''response_queue'', ''reader_thread'',
      ''writer_thread'', ''write_queue'', ''running'', ''server_command'', ''_server_settings'']
     @ (case b of Python \<Rightarrow> [''pylint_cmd'', ''black_cmd'']
               | JavaScript \<Rightarrow> [''eslint_cmd'', ''prettier_cmd''])"

definition mro :: "backend \<Rightarrow> cls list" where
  "mro b = [Manager b, BaseLanguageServerManager]"

definition lookup_attr :: "backend \<Rightarrow> string \<Rightarrow> exn + attr" where
  "lookup_attr b name =
     (if name \<in> set (instance_attributes b) then Inr Field
      else case find (\<lambda>c. name \<in> set (class_methods c)) (mro b) of
             Some c \<Rightarrow> Inr (Method c)
           | None \<Rightarrow> Inl (AttributeError name))"

text \<open>
  Calling the attribute found under \<open>name\<close> with a method name and parameters. Of the
  attributes that take these two arguments and return a response only
  \<open>_send_request_sync\<close> exists; a call of any other attribute is counted as a \<open>TypeError\<close>.
\<close>

definition call_request ::
  "attr \<Rightarrow> string \<Rightarrow> manager \<Rightarrow> string \<Rightarrow> json \<Rightarrow> message list \<Rightarrow> (exn + message) \<times> manager"
where
  "call_request a name st method params arrivals =
     (if a = Method BaseLanguageServerManager \<and> name = ''_send_request_sync'' then
        (let (response, st') = send_request_sync st method params arrivals in (Inr response, st'))
      else (Inl TypeError, st))"

section \<open>The overrides of the Python manager\<close>

text \<open>\<open>PythonLanguageServerManager.get_definition\<close> (python_server.py, lines 330 to 361).\<close>

definition python_get_definition ::
  "world \<Rightarrow> manager \<Rightarrow> string \<Rightarrow> int \<Rightarrow> int \<Rightarrow> message list \<Rightarrow> message list \<Rightarrow> (exn + json) \<times> manager"
where
  "python_get_definition w st file_path line character arr_init arr_req =
     (case ensure_running w st arr_init of
        (Some e, st1) \<Rightarrow> (Inl e, st1)
      | (None, st1) \<Rightarrow>
          (let params = JObj (position_params w file_path line character) in
           case lookup_attr (backend st1) ''_send_lsp_request'' of
             Inl e \<Rightarrow> (Inl e, st1)
           | Inr a \<Rightarrow>
               (case call_request a ''_send_lsp_request'' st1 ''textDocument/definition'' params arr_req of
                  (Inl e, st2) \<Rightarrow> (Inl e, st2)
                | (Inr response, st2) \<Rightarrow> (Inr (dict_get response ''result'' (JObj [])), st2))))"

text \<open>\<open>PythonLanguageServerManager.get_references\<close> (python_server.py, lines 363 to 397).\<close>

definition python_get_references ::
  "world \<Rightarrow> manager \<Rightarrow> string \<Rightarrow> int \<Rightarrow> int \<Rightarrow> message list \<Rightarrow> message list \<Rightarrow> (exn + json) \<times> manager"
where
  "python_get_references w st file_path line character arr_init arr_req =
     (case ensure_running w st arr_init of
        (Some e, st1) \<Rightarrow> (Inl e, st1)
      | (None, st1) \<Rightarrow>
          (let params = JObj (position_params w file_path line character
                              @ [(''context'', JObj [(''includeDeclaration'', JBool True)])]) in
           case lookup_attr (backend st1) ''_send_lsp_request'' of
             Inl e \<Rightarrow> (Inl e, st1)
           | Inr a \<Rightarrow>
               (case call_request a ''_send_lsp_request'' st1 ''textDocument/references'' params arr_req of
                  (Inl e, st2) \<Rightarrow> (Inl e, st2)
                | (Inr response, st2) \<Rightarrow> (Inr (dict_get response ''result'' (JList [])), st2))))"

text \<open>
  \<open>server.get_definition\<close> and \<open>server.get_references\<close> on a manager object: the method of
  the first class in the resolution order that defines it.
\<close>

definition manager_get_definition ::
  "world \<Rightarrow> manager \<Rightarrow> string \<Rightarrow> int \<Rightarrow> int \<Rightarrow> message list \<Rightarrow> message list \<Rightarrow> (exn + json) \<times> manager"
where
  "manager_get_definition w st file_path line character arr_init arr_req =
     (case lookup_attr (backend st) ''get_definition'' of
        Inr (Method (Manager Python)) \<Rightarrow>
          python_get_definition w st file_path line character arr_init arr_req
      | Inr (Method BaseLanguageServerManager) \<Rightarrow>
          get_definition w st file_path line character arr_init arr_req
      | Inr _ \<Rightarrow> (Inl TypeError, st)
      | Inl e \<Rightarrow> (Inl e, st))"

definition manager_get_references ::
  "world \<Rightarrow> manager \<Rightarrow> string \<Rightarrow> int \<Rightarrow> int \<Rightarrow> message list \<Rightarrow> message list \<Rightarrow> (exn + json) \<times> manager"
where
  "manager_get_references w st file_path line character arr_init arr_req =
     (case lookup_attr (backend st) ''get_references'' of
        Inr (Method (Manager Python)) \<Rightarrow>
          python_get_references w st file_path line character arr_init arr_req
      | Inr (Method BaseLanguageServerManager) \<Rightarrow>
          get_references w st file_path line character arr_init arr_req
      | Inr _ \<Rightarrow> (Inl TypeError, st)
      | Inl e \<Rightarrow> (Inl e, st))"

section \<open>The service\<close>

text \<open>
  \<open>MultiLanguageServer\<close> (service.py). A manager object is referred to by its key in
  \<open>server_managers\<close>. The constructor (lines 24 to 42) fails when \<open>WorkspaceManager\<close> finds
  that the workspace is not a directory; the entry for \<open>"java"\<close> is commented out (lines 38
  and 39).
\<close>

record service =
  service_workspace_path :: string
  server_managers :: "(string \<times> manager) list"

definition init_service :: "world \<Rightarrow> string \<Rightarrow> exn + service" where
  "init_service w path =
     (let ws = abspath w path in
      if \<not> isdir w (abspath w ws) then
        Inl (ValueError (''Workspace path is not a directory: '' @ abspath w ws))
      else
        Inr \<lparr> service_workspace_path = ws,
              server_managers = [(''python'', init_manager w Python ws),
                                 (''javascript'', init_manager w JavaScript ws)] \<rparr>)"

text \<open>
  \<open>get_server_for_file\<close> (service.py, lines 56 to 77). The dict display of lines 68 to 75
  evaluates \<open>self.server_managers[key]\<close> for each entry in order before the lookup of line
  77.
\<close>

definition ext_to_server_entries :: "(string \<times> string) list" where
  "ext_to_server_entries =
     [(''.py'', ''python''), (''.js'', ''javascript''), (''.ts'', ''javascript''),
      (''.jsx'', ''javascript''), (''.tsx'', ''javascript''), (''.java'', ''java'')]"

definition get_server_for_file :: "service \<Rightarrow> string \<Rightarrow> exn + string option" where
  "get_server_for_file svc file_path =
     (let file_ext = lower (snd (splitext file_path)) in
      case map_exn (\<lambda>entry. case dict_getitem (server_managers svc) (snd entry) of
                               Inl e \<Rightarrow> Inl e
                             | Inr server \<Rightarrow> Inr (fst entry, snd entry))
                   ext_to_server_entries of
        Inl e \<Rightarrow> Inl e
      | Inr ext_to_server \<Rightarrow> Inr (map_of ext_to_server file_ext))"

text \<open>
  The common shape of \<open>run_linter\<close>, \<open>run_formatter\<close>, \<open>get_definition\<close> and
  \<open>get_references\<close> (service.py, lines 79 to 153): find the server, raise \<open>ValueError\<close> when
  there is none, else call its method \<open>op\<close>.
\<close>

definition with_server ::
  "service \<Rightarrow> string \<Rightarrow> (manager \<Rightarrow> (exn + 'a) \<times> manager) \<Rightarrow> (exn + 'a) \<times> service"
where
  "with_server svc file_path op =
     (case get_server_for_file svc file_path of
        Inl e \<Rightarrow> (Inl e, svc)
      | Inr None \<Rightarrow> (Inl (ValueError (''No language server found for file: '' @ file_path)), svc)
      | Inr (Some key) \<Rightarrow>
          (case map_of (server_managers svc) key of
             None \<Rightarrow> (Inl (KeyError key), svc)
           | Some server \<Rightarrow>
               (let (r, server') = op server in
                (r, svc\<lparr> server_managers :=
                          map (\<lambda>kv. if fst kv = key then (key, server') else kv)
                              (server_managers svc) \<rparr>))))"

text \<open>The linter of a manager is not modelled; the service is given it as \<open>run_linter\<close>.\<close>

definition service_run_linter ::
  "(manager \<Rightarrow> string \<Rightarrow> (exn + json) \<times> manager) \<Rightarrow> service \<Rightarrow> string \<Rightarrow> (exn + json) \<times> service"
where
  "service_run_linter run_linter svc file_path =
     with_server svc file_path (\<lambda>server. run_linter server file_path)"

definition service_run_formatter ::
  "world \<Rightarrow> service \<Rightarrow> string \<Rightarrow> message list \<Rightarrow> message list \<Rightarrow> (exn + string) \<times> service"
where
  "service_run_formatter w svc file_path arr_init arr_req =
     with_server svc file_path (\<lambda>server. run_formatter w server file_path arr_init arr_req)"

definition service_get_definition ::
  "world \<Rightarrow> service \<Rightarrow> string \<Rightarrow> int \<Rightarrow> int \<Rightarrow> message list \<Rightarrow> message list \<Rightarrow> (exn + json) \<times> service"
where
  "service_get_definition w svc file_path line character arr_init arr_req =
     with_server svc file_path
       (\<lambda>server. manager_get_definition w server file_path line character arr_init arr_req)"

definition service_get_references ::
  "world \<Rightarrow> service \<Rightarrow> string \<Rightarrow> int \<Rightarrow> int \<Rightarrow> message list \<Rightarrow> message list \<Rightarrow> (exn + json) \<times> service"
where
  "service_get_references w svc file_path line character arr_init arr_req =
     with_server svc file_path
       (\<lambda>server. manager_get_references w server file_path line character arr_init arr_req)"

section \<open>Example inputs\<close>

text \<open>
  A workspace \<open>/ws\<close> with the files \<open>a.js\<close> and \<open>a.py\<close>, both holding \<open>abcdef\<close>; the
  server commands launch, and the fallback formatter exits with status 2.
\<close>

definition example_world :: world where
  "example_world =
     \<lparr> getpid = 4242,
       abspath = (\<lambda>p. if prefix ''/'' p then p else ''/ws/'' @ p),
       isfile = (\<lambda>p. p = ''/ws/a.js'' \<or> p = ''/ws/a.py''),
       isdir = (\<lambda>p. p = ''/ws''),
       read_text = (\<lambda>p. if p = ''/ws/a.js'' \<or> p = ''/ws/a.py'' then Inr ''abcdef''
                         else Inl (OSError p)),
       popen = (\<lambda>cmd. None),
       run = (\<lambda>cmd input. Completed 2 []) \<rparr>"

text \<open>The same workspace on a machine where no server command can be launched.\<close>

definition no_server_world :: world where
  "no_server_world = example_world \<lparr> popen := (\<lambda>cmd. Some (OSError ''No such file or directory'')) \<rparr>"

definition example_service :: service where
  "example_service =
     \<lparr> service_workspace_path = ''/ws'',
       server_managers = [(''python'', init_manager example_world Python ''/ws''),
                          (''javascript'', init_manager example_world JavaScript ''/ws'')] \<rparr>"

text \<open>A manager whose server process is alive and whose threads run.\<close>

definition running_manager :: "backend \<Rightarrow> manager" where
  "running_manager b =
     (init_manager example_world b ''/ws'')
       \<lparr> server_process := Some True, running := True, reader_alive := True \<rparr>"

definition response_to :: "string \<Rightarrow> message" where
  "response_to request_id =
     [(''jsonrpc'', JStr ''2.0''), (''id'', JStr request_id), (''result'', JList [])]"

definition error_response_to :: "string \<Rightarrow> message" where
  "error_response_to request_id =
     [(''jsonrpc'', JStr ''2.0''), (''id'', JStr request_id),
      (''error'', JObj [(''code'', JInt (- 32601)), (''message'', JStr ''Method not found'')])]"

text \<open>A formatting response whose only edit lies on line 5.\<close>

definition far_edit_response :: "string \<Rightarrow> message" where
  "far_edit_response request_id =
     [(''jsonrpc'', JStr ''2.0''), (''id'', JStr request_id),
      (''result'', JList [JObj
         [(''range'', JObj [(''start'', JObj [(''line'', JInt 5), (''character'', JInt 0)]),
                           (''end'', JObj [(''line'', JInt 5), (''character'', JInt 1)])]),
          (''newText'', JStr ''z'')]])]"

text \<open>Two edits on line 0 that do not overlap.\<close>

definition edit_at_0 :: text_edit where
  "edit_at_0 =
     \<lparr> start_line = 0, start_character = 0, end_line = 0, end_character = 1, newText = ''XX'' \<rparr>"

definition edit_at_3 :: text_edit where
  "edit_at_3 =
     \<lparr> start_line = 0, start_character = 3, end_line = 0, end_character = 4, newText = ''Y'' \<rparr>"

text \<open>
  A pipe that delivers up to 65536 bytes in one read, on a machine that can allocate
  buffers of up to \<open>2^31\<close> bytes. The stream holds a message whose body is the two lines
  \<open>[1,\<close> and \<open>2]\<close>, then a second message.
\<close>

definition example_pipe :: pipe where
  "example_pipe = \<lparr> ready = 65536, alloc_limit = 2 ^ 31 \<rparr>"

definition two_line_body :: bytes where
  "two_line_body = ''[1,'' @ [CHR 0x0A] @ ''2]''"

definition second_message :: bytes where
  "second_message = ''Content-Length: 2'' @ [CHR 0x0D, CHR 0x0A, CHR 0x0D, CHR 0x0A] @ ''{}''"

definition example_stream :: bytes where
  "example_stream =
     ''Content-Length: 6'' @ [CHR 0x0D, CHR 0x0A, CHR 0x0D, CHR 0x0A] @ two_line_body
     @ second_message"

text \<open>
  Two synchronous requests issued by two threads on one manager, both waiting: the state
  after the first has been given its id and after the second has.
\<close>

definition one_waiting :: manager where
  "one_waiting =
     snd (issue_request (running_manager JavaScript) ''textDocument/definition'' (JObj []))"

definition two_waiting :: manager where
  "two_waiting = snd (issue_request one_waiting ''textDocument/references'' (JObj []))"

text \<open>
  A synchronous \<open>initialize\<close> request that timed out, and the manager after the response to
  it has arrived.
\<close>

definition after_timeout :: manager where
  "after_timeout = snd (send_request_sync (running_manager JavaScript) ''initialize'' (JObj []) [])"

definition after_late_response :: manager where
  "after_late_response = lsp_reader after_timeout [response_to ''1'']"

text \<open>
  A manager started on a backend that answers the handshake only after its timeout: the
  state that \<open>start\<close> leaves, and the state once the answer has been read.
\<close>

definition initialize_response :: message where
  "initialize_response =
     [(''jsonrpc'', JStr ''2.0''), (''id'', JStr ''1''),
      (''result'', JObj [(''capabilities'', JObj [(''definitionProvider'', JBool True)])])]"

definition started_late :: manager where
  "started_late =
     lsp_reader (snd (start example_world (init_manager example_world JavaScript ''/ws'') []))
       [initialize_response]"

definition log_message :: "dict \<Rightarrow> message" where
  "log_message params =
     [(''jsonrpc'', JStr ''2.0''), (''method'', JStr ''window/logMessage''),
      (''params'', JObj params)]"

section \<open>Facts about the example inputs\<close>

lemma example_world_simps [simp]:
  "getpid example_world = 4242"
  "abspath example_world p = (if prefix ''/'' p then p else ''/ws/'' @ p)"
  "isfile example_world p = (p = ''/ws/a.js'' \<or> p = ''/ws/a.py'')"
  "isdir example_world p = (p = ''/ws'')"
  "read_text example_world p =
     (if p = ''/ws/a.js'' \<or> p = ''/ws/a.py'' then Inr ''abcdef'' else Inl (OSError p))"
  "popen example_world cmd = None"
  "run example_world cmd input = Completed 2 []"
  by (simp_all add: example_world_def)

lemma no_server_world_simps [simp]:
  "abspath no_server_world p = abspath example_world p"
  "isfile no_server_world p = isfile example_world p"
  "read_text no_server_world p = read_text example_world p"
  "popen no_server_world cmd = Some (OSError ''No such file or directory'')"
  "run no_server_world cmd input = run example_world cmd input"
  by (simp_all add: no_server_world_def)

lemma init_example_service: "init_service example_world ''/ws'' = Inr example_service"
  by (simp add: init_service_def example_service_def Let_def)

lemma running_manager_simps [simp]:
  "backend (running_manager b) = b"
  "server_process (running_manager b) = Some True"
  "request_callbacks (running_manager b) = Map.empty"
  "next_request_id (running_manager b) = 1"
  "response_queue (running_manager b) = []"
  "write_queue (running_manager b) = []"
  "running (running_manager b)"
  "reader_alive (running_manager b)"
  "logged (running_manager b) = []"
  "invoked (running_manager b) = []"
  by (simp_all add: running_manager_def init_manager_def)

section \<open>The service never finds a server\<close>

lemma get_server_for_file_java:
  "init_service w path = Inr svc \<Longrightarrow> get_server_for_file svc file_path = Inl (KeyError ''java'')"
  by (auto simp: init_service_def get_server_for_file_def ext_to_server_entries_def
        dict_getitem_def Let_def split: if_splits)

text \<open>
  C10. On a service built by the constructor, \<open>get_server_for_file\<close> raises
  \<open>KeyError('java')\<close> for every file path, whatever its extension: the table of line 68
  subscripts \<open>server_managers\<close> with \<open>"java"\<close>, which the constructor never stores. So
  \<open>run_linter\<close>, \<open>run_formatter\<close>, \<open>get_definition\<close> and \<open>get_references\<close> of the service
  raise the same \<open>KeyError\<close>, and neither return a result nor raise the \<open>ValueError\<close> of
  their documentation.
\<close>

theorem get_server_for_file_raises_KeyError:
  "init_service w path = Inr svc \<Longrightarrow>
     get_server_for_file svc file_path = Inl (KeyError ''java'') \<and>
     fst (service_run_linter run_linter svc file_path) = Inl (KeyError ''java'') \<and>
     fst (service_run_formatter w' svc file_path arr_init arr_req) = Inl (KeyError ''java'') \<and>
     fst (service_get_definition w' svc file_path line character arr_init arr_req)
       = Inl (KeyError ''java'') \<and>
     fst (service_get_references w' svc file_path line character arr_init arr_req)
       = Inl (KeyError ''java'')"
  by (simp add: get_server_for_file_java with_server_def service_run_linter_def
        service_run_formatter_def service_get_definition_def service_get_references_def)

theorem get_server_for_file_raises_KeyError_witness:
  "init_service example_world ''/ws'' = Inr example_service \<and>
   get_server_for_file example_service ''/ws/a.py'' = Inl (KeyError ''java'') \<and>
   fst (service_run_linter (\<lambda>server file_path. (Inr (JObj []), server)) example_service ''/ws/a.py'')
     = Inl (KeyError ''java'') \<and>
   fst (service_run_formatter example_world example_service ''/ws/a.py'' [] [])
     = Inl (KeyError ''java'') \<and>
   fst (service_get_definition example_world example_service ''/ws/a.py'' 0 0 [] [])
     = Inl (KeyError ''java'') \<and>
   fst (service_get_references example_world example_service ''/ws/a.py'' 0 0 [] [])
     = Inl (KeyError ''java'')"
  using get_server_for_file_raises_KeyError
          [OF init_example_service, of "''/ws/a.py''" "\<lambda>server file_path. (Inr (JObj []), server)"
              example_world "[]" "[]" 0 0]
        init_example_service
  by simp

section \<open>The Python overrides call a method that does not exist\<close>

lemma lookup_send_lsp_request:
  "lookup_attr b ''_send_lsp_request'' = Inl (AttributeError ''_send_lsp_request'')"
  by (cases b) (simp_all add: lookup_attr_def mro_def)

text \<open>
  C9. For every file path and position, \<open>get_definition\<close> and \<open>get_references\<close> of the
  Python manager raise \<open>AttributeError\<close> when the server process is running, because
  \<open>_send_lsp_request\<close> is defined by no class and assigned on no instance; and in no state
  do they return a value (when the server is not running, either \<open>start\<close> raises or the
  same \<open>AttributeError\<close> follows).
\<close>

theorem python_overrides_raise_AttributeError:
  "(is_running st \<longrightarrow>
      python_get_definition w st file_path line character arr_init arr_req
        = (Inl (AttributeError ''_send_lsp_request''), st) \<and>
      python_get_references w st file_path line character arr_init arr_req
        = (Inl (AttributeError ''_send_lsp_request''), st)) \<and>
   (\<exists>e. fst (python_get_definition w st file_path line character arr_init arr_req) = Inl e) \<and>
   (\<exists>e. fst (python_get_references w st file_path line character arr_init arr_req) = Inl e)"
  by (auto simp: python_get_definition_def python_get_references_def ensure_running_def
        lookup_send_lsp_request split: prod.splits option.splits)

theorem python_overrides_raise_AttributeError_witness:
  "is_running (running_manager Python) \<and>
   fst (python_get_definition example_world (running_manager Python) ''/ws/a.py'' 0 0 []
          [response_to ''1''])
     = Inl (AttributeError ''_send_lsp_request'') \<and>
   fst (python_get_references example_world (running_manager Python) ''/ws/a.py'' 0 0 []
          [response_to ''1''])
     = Inl (AttributeError ''_send_lsp_request'')"
  using python_overrides_raise_AttributeError
          [of "running_manager Python" example_world "''/ws/a.py''" 0 0 "[]" "[response_to ''1'']"]
  by (simp add: is_running_def)

section \<open>Log messages\<close>

text \<open>
  C8, as stated, fails where the severity is absent: \<open>params.get("type", 4)\<close> supplies 4,
  and the message is logged at debug, not at info.
\<close>

theorem absent_severity_logged_at_debug:
  "handle_notification (log_message [(''message'', JStr ''hi'')])
     = Inr (Some (ServerLog DEBUG ''LSP server: hi'')) \<and>
   handle_notification (log_message [(''message'', JStr ''hi'')])
     \<noteq> Inr (Some (ServerLog INFO ''LSP server: hi''))"
  by (simp add: handle_notification_def log_message_def dict_get_def log_levels_def)

text \<open>
  C8, amended. For every \<open>window/logMessage\<close> notification whose \<open>params\<close> is an object:
  an integer severity 1, 2, 3, 4 is logged at error, warning, info, debug, any other
  integer severity, a string severity and a null severity at info, and an absent severity
  at debug.
\<close>

theorem log_message_levels:
  assumes "map_of notification ''method'' = Some (JStr ''window/logMessage'')"
    and "map_of notification ''params'' = Some (JObj params)"
  shows "(map_of params ''type'' = None \<longrightarrow>
            handle_notification notification
              = Inr (Some (ServerLog DEBUG
                     (''LSP server: '' @ py_str (dict_get params ''message'' (JStr ''''))))))
       \<and> (\<forall>k. map_of params ''type'' = Some (JInt k) \<longrightarrow>
            handle_notification notification
              = Inr (Some (ServerLog
                     (if k = 1 then ERROR else if k = 2 then WARNING else if k = 3 then INFO
                      else if k = 4 then DEBUG else INFO)
                     (''LSP server: '' @ py_str (dict_get params ''message'' (JStr ''''))))))
       \<and> (\<forall>s. map_of params ''type'' = Some (JStr s) \<longrightarrow>
            handle_notification notification
              = Inr (Some (ServerLog INFO
                     (''LSP server: '' @ py_str (dict_get params ''message'' (JStr ''''))))))
       \<and> (map_of params ''type'' = Some JNull \<longrightarrow>
            handle_notification notification
              = Inr (Some (ServerLog INFO
                     (''LSP server: '' @ py_str (dict_get params ''message'' (JStr ''''))))))"
  using assms by (simp add: handle_notification_def dict_get_def log_levels_def)

theorem log_message_levels_witness:
  "map_of (log_message [(''type'', JInt 2), (''message'', JStr ''hi'')]) ''method''
     = Some (JStr ''window/logMessage'') \<and>
   map_of (log_message [(''type'', JInt 2), (''message'', JStr ''hi'')]) ''params''
     = Some (JObj [(''type'', JInt 2), (''message'', JStr ''hi'')]) \<and>
   map_of [(''type'', JInt 2), (''message'', JStr ''hi'')] ''type'' = Some (JInt 2) \<and>
   handle_notification (log_message [(''type'', JInt 2), (''message'', JStr ''hi'')])
     = Inr (Some (ServerLog WARNING ''LSP server: hi''))"
  using log_message_levels
          [of "log_message [(''type'', JInt 2), (''message'', JStr ''hi'')]"
              "[(''type'', JInt 2), (''message'', JStr ''hi'')]"]
  by (simp add: log_message_def dict_get_def)

section \<open>Responses that carry an error\<close>

text \<open>
  C4 at a concrete input. An asynchronous request with id 1 and callback 7 is outstanding
  and the backend answers it with an error response, which has no \<open>result\<close> member:
  \<open>_process_lsp_message\<close> leaves the manager as it was, the callback stays registered and
  is not invoked. A synchronous request answered by the same message gets the empty dict
  of the timeout.
\<close>

theorem error_response_is_dropped:
  "process_lsp_message
     (send_request_async (running_manager JavaScript) ''textDocument/definition'' (JObj []) 7)
     (error_response_to ''1'')
   = Inr (send_request_async (running_manager JavaScript) ''textDocument/definition'' (JObj []) 7)
   \<and> request_callbacks
       (send_request_async (running_manager JavaScript) ''textDocument/definition'' (JObj []) 7)
       ''1''
     = Some 7
   \<and> invoked
       (send_request_async (running_manager JavaScript) ''textDocument/definition'' (JObj []) 7)
     = []
   \<and> fst (send_request_sync (running_manager JavaScript) ''shutdown'' (JObj [])
            [error_response_to ''1''])
     = []"
  by (simp add: process_lsp_message_def error_response_to_def dict_in_def send_request_async_def
        show_int_def show_nat.simps digit_char_def send_request_sync_def issue_request_def
        await_response_def Let_def)

section \<open>Synchronous requests take the next queued response\<close>

lemma show_int_small [simp]: "show_int 1 = ''1''" "show_int 2 = ''2''"
  by (simp_all add: show_int_def show_nat.simps digit_char_def)

text \<open>
  C1 at a concrete input. Two threads call \<open>_send_request_sync\<close> on the same manager: the
  first is given the id 1, the second the id 2, and both wait. The backend answers the
  request 2 first. The reader puts that response on \<open>response_queue\<close>, and the waiter of
  the request 1 takes it: the response it returns carries the id 2.
\<close>

theorem sync_waiter_gets_other_response:
  "fst (issue_request (running_manager JavaScript) ''textDocument/definition'' (JObj [])) = ''1'' \<and>
   fst (issue_request one_waiting ''textDocument/references'' (JObj [])) = ''2'' \<and>
   response_queue (lsp_reader two_waiting [response_to ''2'']) = [response_to ''2''] \<and>
   fst (await_response (lsp_reader two_waiting [response_to ''2''])) = response_to ''2'' \<and>
   dict_get (fst (await_response (lsp_reader two_waiting [response_to ''2'']))) ''id'' JNull
     = JStr ''2''"
  by (simp add: one_waiting_def two_waiting_def issue_request_def await_response_def
        process_lsp_message_def response_to_def dict_in_def dict_get_def Let_def)

text \<open>
  C2 at a concrete input. A synchronous \<open>initialize\<close> request (id 1) gets no response in
  time and returns the empty dict. Its response arrives afterwards: it is not discarded but
  put on \<open>response_queue\<close>. The next synchronous request (id 2), to which the backend never
  answers, returns that response of the request 1.
\<close>

theorem late_response_handed_to_next_request:
  "fst (send_request_sync (running_manager JavaScript) ''initialize'' (JObj []) []) = [] \<and>
   response_queue after_timeout = [] \<and>
   response_queue after_late_response = [response_to ''1''] \<and>
   fst (issue_request after_late_response ''textDocument/definition'' (JObj [])) = ''2'' \<and>
   fst (send_request_sync after_late_response ''textDocument/definition'' (JObj []) [])
     = response_to ''1''"
  by (simp add: after_timeout_def after_late_response_def send_request_sync_def issue_request_def
        await_response_def process_lsp_message_def response_to_def dict_in_def dict_get_def Let_def)

text \<open>
  The same on the operations: the handshake of \<open>start\<close> times out, its answer arrives
  afterwards, and \<open>get_definition\<close>, whose own request is never answered, reads that
  answer as a location.
\<close>

lemma late_initialize_response_read_as_location:
  "response_queue started_late = [initialize_response] \<and>
   fst (get_definition example_world started_late ''/ws/a.js'' 0 0 [] [])
     = Inr (JObj [(''locations'', JList [JObj [(''path'', JStr []), (''range'', JObj [])]])])"
  by (simp add: started_late_def start_def is_running_def init_manager_def
        start_lsp_communication_def initialize_lsp_server_def configure_server_def
        send_notification_def send_request_sync_def issue_request_def await_response_def
        process_lsp_message_def initialize_response_def dict_in_def dict_get_def
        get_definition_def ensure_running_def convert_location_def uri_to_path_def Let_def)

section \<open>Edits on one line\<close>

text \<open>
  C3 at a concrete input. The document is \<open>abcdef\<close>; one edit replaces the character 0 by
  \<open>XX\<close>, the other the character 3 by \<open>Y\<close>. The sort key is the start line only and the
  sort is stable, so the two edits are applied in the order given. Given in document order
  the result is \<open>XXbYdef\<close>; given in the reverse order, which is also the order of
  descending position, it is \<open>XXbcYef\<close>.
\<close>

theorem same_line_edits_depend_on_order:
  "apply_edits ''abcdef'' [edit_at_0, edit_at_3] = Inr ''XXbYdef'' \<and>
   apply_edits ''abcdef'' [edit_at_3, edit_at_0] = Inr ''XXbcYef'' \<and>
   apply_in_order ''abcdef'' [edit_at_3, edit_at_0] = Inr ''XXbcYef''"
  by (simp add: apply_edits_def edit_at_0_def edit_at_3_def apply_edit_def py_range_def
        slice_to_def slice_from_def)

section \<open>Formatting failures\<close>

text \<open>
  C7, as stated, fails where the server is not running and cannot be launched:
  \<open>run_formatter\<close> calls \<open>start\<close> before the protocol path and outside every \<open>try\<close> block
  (python_server.py, lines 237 and 238), and \<open>start\<close> raises the exception of the launch
  again. Here the file exists and can be read, and the fallback formatter exits with
  status 2.
\<close>

theorem run_formatter_raises_before_fallback:
  "isfile no_server_world ''/ws/a.js'' \<and>
   read_text no_server_world ''/ws/a.js'' = Inr ''abcdef'' \<and>
   run no_server_world (fallback_command JavaScript ''/ws/a.js'') ''abcdef'' = Completed 2 [] \<and>
   fst (run_formatter no_server_world (init_manager no_server_world JavaScript ''/ws'')
          ''/ws/a.js'' [] [])
     = Inl (OSError ''No such file or directory'') \<and>
   fst (run_formatter no_server_world (init_manager no_server_world JavaScript ''/ws'')
          ''/ws/a.js'' [] [])
     \<noteq> Inr ''abcdef''"
  by (simp add: run_formatter_def ensure_running_def start_def is_running_def init_manager_def)

text \<open>
  C7, amended. On an existing file that can be read as UTF-8 text, with the server running
  or started without an exception, when the protocol path does not produce a new content
  (no response, no result, an empty result or an exception in the \<open>try\<close> block) and the
  fallback formatter exits with a non-zero status or raises, \<open>run_formatter\<close> returns the
  original content.
\<close>

theorem run_formatter_returns_original_content:
  assumes "isfile w file_path"
    and "ensure_running w st arr_init = (None, st1)"
    and "read_text w file_path = Inr content"
    and "send_request_sync (did_open st1 file_path (path_to_uri w file_path) content)
           ''textDocument/formatting'' (formatting_request st (path_to_uri w file_path)) arr_req
         = (response, st3)"
    and "\<forall>new_content. lsp_formatting content response \<noteq> Inr (Some new_content)"
    and "case run w (fallback_command (backend st) file_path) content of
           Completed rc out \<Rightarrow> rc \<noteq> 0
         | RunRaises e \<Rightarrow> True"
  shows "run_formatter w st file_path arr_init arr_req = (Inr content, st3)"
  using assms
  by (auto simp: run_formatter_def Let_def split: sum.splits option.splits completed.splits)

lemma ensure_running_manager [simp]:
  "ensure_running w (running_manager b) arrs = (None, running_manager b)"
  by (simp add: ensure_running_def is_running_def)

lemma far_edit_fails: "lsp_formatting ''abcdef'' (far_edit_response ''1'') = Inl IndexError"
  by (simp add: lsp_formatting_def far_edit_response_def dict_in_def dict_get_def decode_edits_def
        decode_edit_def decode_position_def apply_edits_def apply_edit_def py_range_def upt_rec
        is_linebreak_def)

theorem run_formatter_returns_original_content_witness:
  "isfile example_world ''/ws/a.js'' \<and>
   ensure_running example_world (running_manager JavaScript) [] = (None, running_manager JavaScript) \<and>
   read_text example_world ''/ws/a.js'' = Inr ''abcdef'' \<and>
   lsp_formatting ''abcdef'' (far_edit_response ''1'') = Inl IndexError \<and>
   run example_world (fallback_command JavaScript ''/ws/a.js'') ''abcdef'' = Completed 2 [] \<and>
   fst (run_formatter example_world (running_manager JavaScript) ''/ws/a.js'' []
          [far_edit_response ''1''])
     = Inr ''abcdef''"
proof -
  let ?st1 = "running_manager JavaScript"
  let ?uri = "path_to_uri example_world ''/ws/a.js''"
  obtain st3 where sync:
    "send_request_sync (did_open ?st1 ''/ws/a.js'' ?uri ''abcdef'') ''textDocument/formatting''
       (formatting_request ?st1 ?uri) [far_edit_response ''1'']
     = (far_edit_response ''1'', st3)"
    by (simp add: send_request_sync_def issue_request_def await_response_def did_open_def
        send_notification_def process_lsp_message_def far_edit_response_def dict_in_def dict_get_def
        Let_def)
  have "run_formatter example_world ?st1 ''/ws/a.js'' [] [far_edit_response ''1'']
          = (Inr ''abcdef'', st3)"
    by (rule run_formatter_returns_original_content
          [where ?st1.0 = ?st1 and response = "far_edit_response ''1''"])
       (simp_all add: sync far_edit_fails)
  then show ?thesis by (simp add: far_edit_fails)
qed

section \<open>An unavailable backend\<close>

lemma send_notification_queue [simp]:
  "response_queue (send_notification st m p) = response_queue st"
  by (simp add: send_notification_def)

lemma sync_timeout:
  "response_queue st = [] \<Longrightarrow>
     fst (send_request_sync st m p []) = [] \<and> response_queue (snd (send_request_sync st m p [])) = []"
  by (simp add: send_request_sync_def issue_request_def await_response_def Let_def)

lemma start_quiet:
  "response_queue st = [] \<Longrightarrow> popen w (server_command (backend st)) = None \<Longrightarrow>
     fst (start w st []) = None \<and> response_queue (snd (start w st [])) = []"
  using sync_timeout [of "st\<lparr>server_process := Some True, running := True, reader_alive := True\<rparr>"
      "''initialize''"]
  by (simp add: start_def configure_server_def start_lsp_communication_def
      initialize_lsp_server_def split_beta Let_def)

lemma start_fails:
  "\<not> is_running st \<Longrightarrow> popen w (server_command (backend st)) = Some e \<Longrightarrow>
     ensure_running w st arrs = (Some e, st)"
  by (simp add: ensure_running_def start_def)

lemma ensure_quiet:
  assumes "is_running st \<or> popen w (server_command (backend st)) = None"
    and "response_queue st = []"
  shows "fst (ensure_running w st []) = None \<and> response_queue (snd (ensure_running w st [])) = []"
  using assms start_quiet [of st w] by (auto simp: ensure_running_def)

text \<open>
  C6, as stated, fails where the backend cannot be launched: \<open>start\<close> raises the exception
  of \<open>subprocess.Popen\<close> again, and \<open>get_definition\<close>, \<open>get_references\<close> and \<open>run_formatter\<close>
  call it outside any \<open>try\<close> block. Here the file exists and no server command can be
  launched.
\<close>

theorem launch_failure_is_raised:
  "isfile no_server_world ''/ws/a.js'' \<and>
   fst (get_definition no_server_world (init_manager no_server_world JavaScript ''/ws'')
          ''/ws/a.js'' 0 0 [] [])
     = Inl (OSError ''No such file or directory'') \<and>
   fst (get_references no_server_world (init_manager no_server_world JavaScript ''/ws'')
          ''/ws/a.js'' 0 0 [] [])
     = Inl (OSError ''No such file or directory'') \<and>
   fst (run_formatter no_server_world (init_manager no_server_world JavaScript ''/ws'')
          ''/ws/a.js'' [] [])
     = Inl (OSError ''No such file or directory'')"
  by (simp add: get_definition_def get_references_def run_formatter_def ensure_running_def
        start_def is_running_def init_manager_def)

text \<open>
  C6, amended. For \<open>get_definition\<close> and \<open>get_references\<close> of the base manager and, on an
  existing file, for \<open>run_formatter\<close>: when the server is not running and cannot be
  launched, the operation raises the exception of the launch; when the server is running or
  can be launched and the backend sends nothing (no response is queued and none arrives),
  the operation does not raise: \<open>get_definition\<close> returns no locations, \<open>get_references\<close>
  the empty list and \<open>run_formatter\<close>, when the file can be read as UTF-8 text, the output
  of the fallback formatter or the original content.
\<close>

theorem unavailable_backend:
  "(\<not> is_running st \<and> popen w (server_command (backend st)) = Some e \<longrightarrow>
      fst (get_definition w st file_path line character arr_init arr_req) = Inl e \<and>
      fst (get_references w st file_path line character arr_init arr_req) = Inl e \<and>
      (isfile w file_path \<longrightarrow> fst (run_formatter w st file_path arr_init arr_req) = Inl e))
   \<and> ((is_running st \<or> popen w (server_command (backend st)) = None) \<and> response_queue st = [] \<longrightarrow>
      fst (get_definition w st file_path line character [] []) = Inr (JObj [(''locations'', JList [])]) \<and>
      fst (get_references w st file_path line character [] []) = Inr (JList []) \<and>
      (\<forall>content. isfile w file_path \<and> read_text w file_path = Inr content \<longrightarrow>
         fst (run_formatter w st file_path [] [])
           = Inr (case run w (fallback_command (backend st) file_path) content of
                    Completed rc out \<Rightarrow> if rc = 0 then out else content
                  | RunRaises x \<Rightarrow> content)))"
proof (intro conjI impI allI)
  assume a: "\<not> is_running st \<and> popen w (server_command (backend st)) = Some e"
  then have en: "ensure_running w st arr_init = (Some e, st)" by (simp add: start_fails)
  show "fst (get_definition w st file_path line character arr_init arr_req) = Inl e"
    by (simp add: get_definition_def en)
  show "fst (get_references w st file_path line character arr_init arr_req) = Inl e"
    by (simp add: get_references_def en)
  show "fst (run_formatter w st file_path arr_init arr_req) = Inl e" if "isfile w file_path"
    using that by (simp add: run_formatter_def en)
next
  assume a: "(is_running st \<or> popen w (server_command (backend st)) = None) \<and> response_queue st = []"
  obtain st1 where en: "ensure_running w st [] = (None, st1)" and q: "response_queue st1 = []"
    using ensure_quiet [of st w] a by (cases "ensure_running w st []") auto
  show "fst (get_definition w st file_path line character [] []) = Inr (JObj [(''locations'', JList [])])"
    using sync_timeout [OF q]
    by (simp add: get_definition_def en split_beta Let_def dict_get_def)
  show "fst (get_references w st file_path line character [] []) = Inr (JList [])"
    using sync_timeout [OF q]
    by (simp add: get_references_def en split_beta Let_def dict_get_def)
  show "fst (run_formatter w st file_path [] [])
           = Inr (case run w (fallback_command (backend st) file_path) content of
                    Completed rc out \<Rightarrow> if rc = 0 then out else content
                  | RunRaises x \<Rightarrow> content)"
    if "isfile w file_path \<and> read_text w file_path = Inr content" for content
    using that sync_timeout [of "did_open st1 file_path (path_to_uri w file_path) content"] q
    by (simp add: run_formatter_def en split_beta Let_def did_open_def lsp_formatting_def
        split: completed.splits)
qed

theorem unavailable_backend_witness:
  "\<not> is_running (init_manager no_server_world JavaScript ''/ws'') \<and>
   popen no_server_world (server_command JavaScript) = Some (OSError ''No such file or directory'') \<and>
   fst (get_references no_server_world (init_manager no_server_world JavaScript ''/ws'')
          ''/ws/a.js'' 0 0 [] [])
     = Inl (OSError ''No such file or directory'') \<and>
   popen example_world (server_command JavaScript) = None \<and>
   response_queue (init_manager example_world JavaScript ''/ws'') = [] \<and>
   isfile example_world ''/ws/a.js'' \<and> read_text example_world ''/ws/a.js'' = Inr ''abcdef'' \<and>
   fst (get_definition example_world (init_manager example_world JavaScript ''/ws'')
          ''/ws/a.js'' 0 0 [] [])
     = Inr (JObj [(''locations'', JList [])]) \<and>
   fst (get_references example_world (init_manager example_world JavaScript ''/ws'')
          ''/ws/a.js'' 0 0 [] [])
     = Inr (JList []) \<and>
   fst (run_formatter example_world (init_manager example_world JavaScript ''/ws'') ''/ws/a.js'' [] [])
     = Inr ''abcdef''"
  using unavailable_backend
          [of "init_manager no_server_world JavaScript ''/ws''" no_server_world
              "OSError ''No such file or directory''" "''/ws/a.js''" 0 0 "[]" "[]"]
        unavailable_backend
          [of "init_manager example_world JavaScript ''/ws''" example_world
              "OSError ''No such file or directory''" "''/ws/a.js''" 0 0 "[]" "[]"]
  by (simp add: is_running_def init_manager_def)

section \<open>Reading a frame\<close>

lemma less_10_cases:
  "(d::nat) < 10 \<Longrightarrow> d = 0 \<or> d = 1 \<or> d = 2 \<or> d = 3 \<or> d = 4 \<or> d = 5 \<or> d = 6 \<or> d = 7 \<or> d = 8 \<or> d = 9"
  by arith

lemma digit_char_props:
  assumes "d < 10"
  shows "digit_val (digit_char d) = d" and "is_digit (digit_char d)"
    and "\<not> bytes_isspace (digit_char d)" and "digit_char d \<noteq> CHR ''-''"
    and "digit_char d \<noteq> CHR ''+''" and "digit_char d \<noteq> CHR '':''" and "digit_char d \<noteq> CHR 0x0A"
  using less_10_cases [OF assms]
  by (auto simp: digit_char_def digit_val_def is_digit_def bytes_isspace_def)

lemma show_nat_last: "show_nat n = butlast (show_nat n) @ [digit_char (n mod 10)]"
  by (subst (1 2) show_nat.simps) simp

lemma show_nat_digits: "c \<in> set (show_nat n) \<Longrightarrow> \<exists>d<10. c = digit_char d"
proof (induction n rule: show_nat.induct)
  case (1 n)
  show ?case
  proof (cases "n < 10")
    case True
    with "1.prems" show ?thesis by (subst (asm) show_nat.simps) auto
  next
    case False
    with "1.prems" have "c \<in> set (show_nat (n div 10)) \<or> c = digit_char (n mod 10)"
      by (subst (asm) show_nat.simps) auto
    then show ?thesis
    proof
      assume "c \<in> set (show_nat (n div 10))"
      with "1.IH" False show ?thesis by simp
    next
      assume "c = digit_char (n mod 10)"
      moreover have "n mod 10 < 10" by simp
      ultimately show ?thesis by blast
    qed
  qed
qed

lemma show_nat_nonempty: "show_nat n \<noteq> []"
  by (subst show_nat.simps) simp

lemma foldl_show_nat:
  "foldl (\<lambda>a c. 10 * a + digit_val c) acc (show_nat n) = acc * 10 ^ length (show_nat n) + n"
proof (induction n arbitrary: acc rule: show_nat.induct)
  case (1 n)
  show ?case
  proof (cases "n < 10")
    case True
    then show ?thesis by (subst (1 2) show_nat.simps) (simp add: digit_char_props)
  next
    case False
    have "foldl (\<lambda>a c. 10 * a + digit_val c) acc (show_nat n)
          = 10 * foldl (\<lambda>a c. 10 * a + digit_val c) acc (show_nat (n div 10)) + n mod 10"
      using False by (subst show_nat.simps) (simp add: digit_char_props)
    also have "\<dots> = 10 * (acc * 10 ^ length (show_nat (n div 10)) + n div 10) + n mod 10"
      using "1.IH" [OF False] by simp
    also have "\<dots> = acc * 10 ^ length (show_nat n) + n"
      using False by (subst (2) show_nat.simps) (simp add: algebra_simps)
    finally show ?thesis .
  qed
qed

lemma py_digits_all:
  "\<forall>c\<in>set ds. is_digit c \<Longrightarrow>
     py_digits b acc ds
       = (if ds = [] then (if b then Some acc else None)
          else Some (foldl (\<lambda>a c. 10 * a + digit_val c) acc ds))"
  by (induction ds arbitrary: b acc) auto

lemma py_digits_show_nat: "py_digits False 0 (show_nat n) = Some n"
proof -
  have "\<forall>c\<in>set (show_nat n). is_digit c"
    using show_nat_digits digit_char_props(2) by blast
  then show ?thesis
    by (simp add: py_digits_all show_nat_nonempty foldl_show_nat)
qed

lemma dropWhile_none: "xs \<noteq> [] \<Longrightarrow> \<not> P (hd xs) \<Longrightarrow> dropWhile P xs = xs"
  by (cases xs) auto

lemma strip_core:
  assumes "xs \<noteq> []" and "\<not> bytes_isspace (hd xs)" and "\<not> bytes_isspace (last xs)"
    and "\<forall>c\<in>set pre. bytes_isspace c" and "\<forall>c\<in>set post. bytes_isspace c"
  shows "strip (pre @ xs @ post) = xs"
proof -
  have "dropWhile bytes_isspace (pre @ xs @ post) = xs @ post"
    using assms by (simp add: dropWhile_append3 dropWhile_none) 
  moreover have "dropWhile bytes_isspace (rev (xs @ post)) = rev xs"
  proof -
    have "dropWhile bytes_isspace (rev post @ rev xs) = dropWhile bytes_isspace (rev xs)"
      using assms(5) by (simp add: dropWhile_append)
    moreover have "dropWhile bytes_isspace (rev xs) = rev xs"
      using assms(1,3) by (intro dropWhile_none) (simp_all add: hd_rev)
    ultimately show ?thesis by simp
  qed
  ultimately show ?thesis by (simp add: strip_def)
qed

lemma readline_line:
  "CHR 0x0A \<notin> set xs \<Longrightarrow> readline (xs @ CHR 0x0A # rest) = (xs @ [CHR 0x0A], rest)"
  by (induction xs) auto

lemma split_on_none: "sep \<notin> set xs \<Longrightarrow> split_on sep xs = [xs]"
  by (induction xs) auto

lemma show_nat_no_char:
  assumes "\<And>d. d < 10 \<Longrightarrow> digit_char d \<noteq> c"
  shows "c \<notin> set (show_nat n)"
  using show_nat_digits [of c n] assms by blast

lemma show_nat_no_special:
  "CHR '':'' \<notin> set (show_nat n)" "CHR 0x0A \<notin> set (show_nat n)"
  "CHR ''-'' \<notin> set (show_nat n)" "CHR ''+'' \<notin> set (show_nat n)"
  by (rule show_nat_no_char, simp add: digit_char_props)+

lemma show_nat_no_space: "c \<in> set (show_nat n) \<Longrightarrow> \<not> bytes_isspace c"
  using show_nat_digits [of c n] digit_char_props(3) by blast

lemma show_nat_hd_last:
  "\<not> bytes_isspace (hd (show_nat n))" "\<not> bytes_isspace (last (show_nat n))"
  "hd (show_nat n) \<noteq> CHR ''-''" "hd (show_nat n) \<noteq> CHR ''+''"
proof -
  have h: "hd (show_nat n) \<in> set (show_nat n)" and l: "last (show_nat n) \<in> set (show_nat n)"
    using show_nat_nonempty [of n] by simp_all
  show "\<not> bytes_isspace (hd (show_nat n))" by (rule show_nat_no_space [OF h])
  show "\<not> bytes_isspace (last (show_nat n))" by (rule show_nat_no_space [OF l])
  show "hd (show_nat n) \<noteq> CHR ''-''" using h show_nat_no_special(3) [of n] by metis
  show "hd (show_nat n) \<noteq> CHR ''+''" using h show_nat_no_special(4) [of n] by metis
qed

lemma py_int_show_nat:
  assumes "length (show_nat n) \<le> int_max_str_digits"
  shows "py_int (CHR '' '' # show_nat n) = Inr (int n)"
proof -
  have s: "strip (CHR '' '' # show_nat n) = show_nat n"
    using strip_core [of "show_nat n" "[CHR '' '']" "[]"] show_nat_nonempty show_nat_hd_last(1,2)
    by (simp add: bytes_isspace_def)
  have f: "filter is_digit (show_nat n) = show_nat n"
    using show_nat_digits digit_char_props(2) by (metis filter_True)
  obtain c cs where cs: "show_nat n = c # cs"
    using show_nat_nonempty by (cases "show_nat n") auto
  have sign: "c \<noteq> CHR ''-''" "c \<noteq> CHR ''+''"
    using show_nat_hd_last(3,4) [of n] by (simp_all add: cs)
  have lim: "\<not> int_max_str_digits < length (filter is_digit (c # cs))"
    using assms f by (simp add: cs)
  have dig: "py_digits False 0 (c # cs) = Some n"
    using py_digits_show_nat [of n] by (simp add: cs)
  have s': "strip (CHR '' '' # c # cs) = c # cs"
    using s by (simp add: cs)
  have "py_int (CHR '' '' # c # cs) = Inr (int n)"
    using sign lim dig by (simp add: py_int_def s' Let_def del: filter.simps py_digits.simps)
  then show ?thesis by (simp add: cs)
qed

lemma show_nat_length: "0 < k \<Longrightarrow> n < 10 ^ k \<Longrightarrow> length (show_nat n) \<le> k"
proof (induction n arbitrary: k rule: show_nat.induct)
  case (1 n)
  show ?case
  proof (cases "n < 10")
    case True
    with "1.prems" show ?thesis by (subst show_nat.simps) simp
  next
    case False
    obtain j where k: "k = Suc j" using "1.prems"(1) by (cases k) auto
    have "0 < j" using False "1.prems"(2) k by (cases j) auto
    moreover have "n div 10 < 10 ^ j" using "1.prems"(2) k by (simp add: less_mult_imp_div_less)
    ultimately have "length (show_nat (n div 10)) \<le> j" using "1.IH" [OF False] by simp
    then show ?thesis using False k by (subst show_nat.simps) simp
  qed
qed

lemma maxsize_digits: "int n \<le> maxsize \<Longrightarrow> length (show_nat n) \<le> int_max_str_digits"
proof -
  assume "int n \<le> maxsize"
  then have "n < 10 ^ 19" by (simp add: maxsize_def)
  then have "length (show_nat n) \<le> 19" by (intro show_nat_length) simp_all
  then show ?thesis by (simp add: int_max_str_digits_def)
qed

lemma read_n_exact:
  "int (length body) \<le> maxsize \<Longrightarrow> length body \<le> alloc_limit p \<Longrightarrow> length body \<le> ready p \<Longrightarrow>
     read_n p (int (length body)) (body @ rest) = Inr (body, rest)"
  by (simp add: read_n_def min_def)

lemma read_frame_header:
  assumes "int n \<le> maxsize" and "CHR 0x0A \<notin> set l1"
  shows "read_frame p lang (''Content-Length: '' @ show_nat n @ [CHR 0x0D, CHR 0x0A] @ l1 @ [CHR 0x0A] @ after)
         = (case read_n p (int n) (if lang = ''python'' then snd (readline after) else after) of
              Inl e \<Rightarrow> Failed e
            | Inr (content, s4) \<Rightarrow> Frame content s4)"
proof -
  define hdr where "hdr = ''Content-Length: '' @ show_nat n"
  have nl: "CHR 0x0A \<notin> set (hdr @ [CHR 0x0D])"
    using show_nat_no_special(2) [of n] by (simp add: hdr_def)
  have eq: "''Content-Length: '' @ show_nat n @ [CHR 0x0D, CHR 0x0A] @ l1 @ [CHR 0x0A] @ after
        = (hdr @ [CHR 0x0D]) @ CHR 0x0A # (l1 @ CHR 0x0A # after)"
    by (simp add: hdr_def)
  have r1: "readline ((hdr @ [CHR 0x0D]) @ CHR 0x0A # (l1 @ CHR 0x0A # after))
        = ((hdr @ [CHR 0x0D]) @ [CHR 0x0A], l1 @ CHR 0x0A # after)"
    by (rule readline_line [OF nl])
  have ne: "hdr \<noteq> []" and hd: "\<not> bytes_isspace (hd hdr)" and la: "\<not> bytes_isspace (last hdr)"
    using show_nat_hd_last(2) [of n] show_nat_nonempty [of n]
    by (simp_all add: hdr_def bytes_isspace_def)
  have st: "strip ((hdr @ [CHR 0x0D]) @ [CHR 0x0A]) = hdr"
    using strip_core [of hdr "[]" "[CHR 0x0D, CHR 0x0A]"] ne hd la
    by (simp add: bytes_isspace_def)
  have pre: "prefix ''Content-Length:'' hdr"
    by (simp add: hdr_def)
  have sp: "split_on CHR '':'' hdr = [''Content-Length'', CHR '' '' # show_nat n]"
    using split_on_none [of "CHR '':''" "CHR '' '' # show_nat n"] show_nat_no_special(1) [of n]
    by (simp add: hdr_def)
  have r2: "readline (l1 @ CHR 0x0A # after) = (l1 @ [CHR 0x0A], after)"
    by (rule readline_line [OF assms(2)])
  show ?thesis
    unfolding eq read_frame_def r1
    using ne
    by (simp only: st sp pre r2 py_int_show_nat [OF maxsize_digits [OF assms(1)]] Let_def split
        list.case sum.case snd_conv if_True if_False)
qed

text \<open>
  C5, as stated, fails on the Python manager. Nothing is configured on it: the extra line
  is skipped because its language is \<open>python\<close> (base.py, lines 153 and 154). On a stream
  that holds the header, the blank line and a body of 6 bytes in two lines, the reader
  skips the first line of the body and returns 6 bytes that begin in the body and end in
  the next header.
\<close>

theorem python_reader_skips_a_body_line:
  "read_frame example_pipe (language (running_manager Python)) example_stream
     = Frame ''2]Cont'' (''ent-Length: 2'' @ [CHR 0x0D, CHR 0x0A, CHR 0x0D, CHR 0x0A] @ ''{}'') \<and>
   read_frame example_pipe (language (running_manager Python)) example_stream
     \<noteq> Frame two_line_body second_message"
  by (simp add: read_frame_def example_stream_def two_line_body_def second_message_def
        example_pipe_def language_def strip_def bytes_isspace_def py_int_def is_digit_def
        digit_val_def int_max_str_digits_def read_n_def maxsize_def Let_def)

text \<open>
  C5, amended. The number of lines skipped is written into the reader and is not
  configurable: after the \<open>Content-Length\<close> line the reader skips one line, and exactly
  when the language of the backend is \<open>python\<close> one after, whatever the skipped lines hold;
  it then issues one read of \<open>Content-Length\<close> bytes. So, when the length \<open>n\<close> is at most
  \<open>sys.maxsize\<close>, a buffer of \<open>n\<close> bytes can be allocated and the pipe delivers \<open>n\<close> bytes
  in that read: for every language other than \<open>python\<close>, with one line (the blank line of
  a header block that is the \<open>Content-Length\<close> line alone) between that line and a body of
  \<open>n\<close> bytes, and for \<open>python\<close> with two lines between them, one pass of the reader takes
  exactly the body and leaves what follows it.
\<close>

theorem read_frame_skips_by_language:
  assumes "CHR 0x0A \<notin> set l1" and "CHR 0x0A \<notin> set l2"
    and "length body = n"
    and "int n \<le> maxsize" and "n \<le> alloc_limit p" and "n \<le> ready p"
  shows "(lang \<noteq> ''python'' \<longrightarrow>
            read_frame p lang
              (''Content-Length: '' @ show_nat n @ [CHR 0x0D, CHR 0x0A] @ l1 @ [CHR 0x0A]
               @ body @ rest)
            = Frame body rest)
       \<and> read_frame p ''python''
            (''Content-Length: '' @ show_nat n @ [CHR 0x0D, CHR 0x0A] @ l1 @ [CHR 0x0A]
             @ l2 @ [CHR 0x0A] @ body @ rest)
          = Frame body rest"
proof (intro conjI impI)
  have rd: "read_n p (int n) (body @ rest) = Inr (body, rest)"
    using assms(3-6) read_n_exact [of body p rest] by simp
  show "read_frame p lang
          (''Content-Length: '' @ show_nat n @ [CHR 0x0D, CHR 0x0A] @ l1 @ [CHR 0x0A] @ body @ rest)
        = Frame body rest" if "lang \<noteq> ''python''"
    unfolding read_frame_header [OF assms(4) assms(1)] using that by (simp add: rd)
  have r3: "readline (l2 @ CHR 0x0A # (body @ rest)) = (l2 @ [CHR 0x0A], body @ rest)"
    by (rule readline_line [OF assms(2)])
  show "read_frame p ''python''
          (''Content-Length: '' @ show_nat n @ [CHR 0x0D, CHR 0x0A] @ l1 @ [CHR 0x0A]
           @ l2 @ [CHR 0x0A] @ body @ rest)
        = Frame body rest"
    unfolding read_frame_header [OF assms(4) assms(1)] by (simp add: r3 rd)
qed

theorem read_frame_skips_by_language_witness:
  "CHR 0x0A \<notin> set [CHR 0x0D] \<and> CHR 0x0A \<notin> set ''Content-Type: x'' \<and> length ''hello'' = 5 \<and>
   (5::int) \<le> maxsize \<and> 5 \<le> alloc_limit example_pipe \<and> 5 \<le> ready example_pipe \<and>
   language (running_manager JavaScript) \<noteq> ''python'' \<and>
   read_frame example_pipe (language (running_manager JavaScript))
     (''Content-Length: 5'' @ [CHR 0x0D, CHR 0x0A, CHR 0x0D, CHR 0x0A] @ ''helloREST'')
   = Frame ''hello'' ''REST'' \<and>
   read_frame example_pipe (language (running_manager Python))
     (''Content-Length: 5'' @ [CHR 0x0D, CHR 0x0A] @ ''Content-Type: x'' @ [CHR 0x0A, CHR 0x0D, CHR 0x0A]
      @ ''helloREST'')
   = Frame ''hello'' ''REST''"
  using read_frame_skips_by_language
          [of "[CHR 0x0D]" "[CHR 0x0D]" "''hello''" 5 example_pipe
              "language (running_manager JavaScript)" "''REST''"]
        read_frame_skips_by_language
          [of "''Content-Type: x''" "[CHR 0x0D]" "''hello''" 5 example_pipe
              "language (running_manager JavaScript)" "''REST''"]
  by (simp add: language_def show_nat.simps digit_char_def maxsize_def example_pipe_def)

text \<open>
  When the pipe holds fewer bytes than the length asked for, the read returns those: with
  3 bytes ready, a body of 5 bytes is cut after the third.
\<close>

lemma short_read_returns_prefix:
  "read_frame (example_pipe \<lparr> ready := 3 \<rparr>) ''javascript''
     (''Content-Length: 5'' @ [CHR 0x0D, CHR 0x0A, CHR 0x0D, CHR 0x0A] @ ''helloREST'')
   = Frame ''hel'' ''loREST''"
  by (simp add: read_frame_def example_pipe_def strip_def bytes_isspace_def py_int_def is_digit_def
        digit_val_def int_max_str_digits_def read_n_def maxsize_def Let_def)

end
